theory Spec2Isabelle
  imports Complex_Main "HOL-Library.Word"
begin

section \<open>Data model\<close>

text \<open>
  The quota core of the gateway: per-key policies (package config), the usage ledger
  and the decision engine (package quota, Manager), the pricing catalog
  (PricingManager) and the autosave controls of the persistence layer.

  Go's int64 is a 64-bit word: + and - wrap around, comparisons read the word as a
  two's complement number (sint). A float64 value is the real number it stands for;
  there is no NaN and no infinity here. Where the code computes the cost of a
  request, every operation is rounded to the nearest float64 (section float64
  arithmetic). A time.Time is an instant, counted in nanoseconds from the zero Time
  (January 1 of year 1, 00:00:00 UTC); After compares instants, whatever the
  location of either side.
\<close>

type_synonym int64 = "64 word"
type_synonym float64 = real
type_synonym Time = int

definition zeroTime :: Time where
  "zeroTime = 0"

definition IsZero :: "Time \<Rightarrow> bool" where
  "IsZero t = (t = zeroTime)"

definition After :: "Time \<Rightarrow> Time \<Rightarrow> bool" where
  "After t u = (u < t)"

text \<open>Durations are nanosecond counts (time.Second, time.Hour).\<close>

definition Second :: int where
  "Second = 1000000000"

definition Hour :: int where
  "Hour = 3600 * Second"

definition Add :: "Time \<Rightarrow> int \<Rightarrow> Time" where
  "Add t d = t + d"

section \<open>float64 arithmetic\<close>

text \<open>
  IEEE 754 binary64 with the default rounding, as Go's float64 has it: a result is
  the multiple of the unit in the last place that is nearest to the exact value,
  the even multiple on a tie. A value x with 2^e \<le> |x| < 2^(e+1) has 53 significant
  bits, so its unit is 2^(e-52); below 2^-1022 the unit stays 2^-1074 (subnormal
  numbers). Beyond the largest float64 Go has +Inf and -Inf: round64 has no upper
  limit on the exponent, so it is Go's result as long as that is finite.
\<close>

definition rne :: "real \<Rightarrow> int" where
  "rne y =
     (let f = \<lfloor>y\<rfloor> in
        if y - of_int f < 1 / 2 then f
        else if 1 / 2 < y - of_int f then f + 1
        else if even f then f else f + 1)"

definition exponent64 :: "real \<Rightarrow> int" where
  "exponent64 x = max (\<lfloor>log 2 \<bar>x\<bar>\<rfloor> - 52) (- 1074)"

definition ulp64 :: "real \<Rightarrow> real" where
  "ulp64 x = 2 powi exponent64 x"

definition round64 :: "real \<Rightarrow> float64" where
  "round64 x = (if x = 0 then 0 else of_int (rne (x / ulp64 x)) * ulp64 x)"

text \<open>The smallest positive float64.\<close>

definition minPositive64 :: real where
  "minPositive64 = 2 powi (- 1074)"

definition fadd :: "float64 \<Rightarrow> float64 \<Rightarrow> float64" where
  "fadd x y = round64 (x + y)"

definition fmul :: "float64 \<Rightarrow> float64 \<Rightarrow> float64" where
  "fmul x y = round64 (x * y)"

definition fdiv :: "float64 \<Rightarrow> float64 \<Rightarrow> float64" where
  "fdiv x y = round64 (x / y)"

text \<open>A constant of the source that is written as a decimal fraction (0.3, 1.25).\<close>

definition lit :: "real \<Rightarrow> float64" where
  "lit x = round64 x"

text \<open>config.APIKeyPolicy, and its alias quota.Policy.\<close>

record APIKeyPolicy =
  Name :: string
  AllowedModels :: "string list"
  MaxTokens :: int64
  MaxCostUSD :: float64
  ExpiresAt :: string

type_synonym Policy = APIKeyPolicy

record QuotaUsage =
  APIKey :: string
  TotalTokens :: int64
  TotalCostUSD :: float64
  TotalRequests :: int64
  LastUsedAt :: Time
  CreatedAt :: Time

record ModelPricing =
  InputPricePerMillion :: float64
  OutputPricePerMillion :: float64
  CachedInputPricePerMillion :: float64

datatype QuotaErrorType =
    QuotaErrorTypeExpired
  | QuotaErrorTypeModelNotAllowed
  | QuotaErrorTypeTokenLimitExceeded
  | QuotaErrorTypeCostLimitExceeded

text \<open>
  The Details map of a QuotaError, one constructor per constructor function of the
  source. The Message field, a rendering of the same values as text, is left out.
\<close>

datatype QuotaDetails =
    ExpiredDetails Time
  | ModelDetails string "string list"
  | TokenDetails int64 int64
  | CostDetails float64 float64

record QuotaError =
  Type :: QuotaErrorType
  Code :: string
  Details :: QuotaDetails

record CheckResult =
  Allowed :: bool
  Error :: "QuotaError option"
  Usage :: "QuotaUsage option"
  Policy :: "Policy option"
  RemainingTokens :: "int64 option"
  RemainingCostUSD :: "float64 option"

text \<open>
  The pricing catalog is the map of the PricingManager (its file path and its lock
  play no part in what follows).
\<close>

type_synonym PricingManager = "string \<rightharpoonup> ModelPricing"

text \<open>
  The Manager. A pointer that may be nil is an option: a ledger entry is a
  *QuotaUsage, so \<open>usage m k = None\<close> says the key has no entry and
  \<open>usage m k = Some None\<close> that its entry holds the nil pointer (SetUsage stores
  whatever pointer it is given). Policies are stored by LoadPolicies only, which
  stores the address of a copy, never nil. Rows are held by value: every key owns
  its row.
\<close>

record Manager =
  policies :: "string \<rightharpoonup> Policy"
  usage :: "string \<rightharpoonup> QuotaUsage option"
  pricing :: PricingManager

datatype panic =
    NilPointerDereference
  | CloseOfNilChannel
  | CloseOfClosedChannel

section \<open>Parsing the expiry date\<close>

text \<open>
  ParsedExpiresAt calls the standard library's time.Parse twice. The library is a
  parameter of the model: \<open>parse layout value\<close> is the parsed instant, or None
  where time.Parse returns an error.
\<close>

type_synonym parse_fn = "string \<Rightarrow> string \<Rightarrow> Time option"

definition RFC3339 :: string where
  "RFC3339 = ''2006-01-02T15:04:05Z07:00''"

definition ParsedExpiresAt :: "parse_fn \<Rightarrow> Policy option \<Rightarrow> Time" where
  "ParsedExpiresAt parse p =
     (case p of
        None \<Rightarrow> zeroTime
      | Some q \<Rightarrow>
          if ExpiresAt q = [] then zeroTime
          else (case parse RFC3339 (ExpiresAt q) of
                  Some t \<Rightarrow> t
                | None \<Rightarrow>
                    (case parse ''2006-01-02'' (ExpiresAt q) of
                       Some t \<Rightarrow> Add t (24 * Hour - Second)
                     | None \<Rightarrow> zeroTime)))"

definition HasModelRestriction :: "Policy option \<Rightarrow> bool" where
  "HasModelRestriction p =
     (case p of None \<Rightarrow> False | Some q \<Rightarrow> 0 < length (AllowedModels q))"

definition HasTokenLimit :: "Policy option \<Rightarrow> bool" where
  "HasTokenLimit p = (case p of None \<Rightarrow> False | Some q \<Rightarrow> 0 < sint (MaxTokens q))"

definition HasCostLimit :: "Policy option \<Rightarrow> bool" where
  "HasCostLimit p = (case p of None \<Rightarrow> False | Some q \<Rightarrow> 0 < MaxCostUSD q)"

definition HasExpiration :: "Policy option \<Rightarrow> bool" where
  "HasExpiration p = (case p of None \<Rightarrow> False | Some q \<Rightarrow> ExpiresAt q \<noteq> [])"

text \<open>IsExpired reads the clock: \<open>now\<close> is what time.Now() returns.\<close>

definition IsExpired :: "parse_fn \<Rightarrow> Time \<Rightarrow> Policy option \<Rightarrow> bool" where
  "IsExpired parse now p =
     (if \<not> HasExpiration p then False
      else let expiresAt = ParsedExpiresAt parse p in
        if IsZero expiresAt then False else After now expiresAt)"

text \<open>The loop of IsModelAllowed over the allowed models.\<close>

fun anyAllowed :: "string list \<Rightarrow> string \<Rightarrow> bool" where
  "anyAllowed [] model = False"
| "anyAllowed (allowed # rest) model = (if allowed = model then True else anyAllowed rest model)"

definition IsModelAllowed :: "Policy option \<Rightarrow> string \<Rightarrow> bool" where
  "IsModelAllowed p model =
     (if \<not> HasModelRestriction p then True
      else (case p of None \<Rightarrow> True | Some q \<Rightarrow> anyAllowed (AllowedModels q) model))"

definition HasAnyRestriction :: "Policy option \<Rightarrow> bool" where
  "HasAnyRestriction p =
     (case p of
        None \<Rightarrow> False
      | Some q \<Rightarrow> HasModelRestriction p \<or> HasTokenLimit p \<or> HasCostLimit p \<or> HasExpiration p)"

section \<open>Errors and results\<close>

definition NewExpiredError :: "Time \<Rightarrow> QuotaError" where
  "NewExpiredError expiresAt =
     \<lparr>Type = QuotaErrorTypeExpired, Code = ''api_key_expired'',
      Details = ExpiredDetails expiresAt\<rparr>"

definition NewModelNotAllowedError :: "string \<Rightarrow> string list \<Rightarrow> QuotaError" where
  "NewModelNotAllowedError model allowedModels =
     \<lparr>Type = QuotaErrorTypeModelNotAllowed, Code = ''model_not_allowed'',
      Details = ModelDetails model allowedModels\<rparr>"

definition NewTokenLimitExceededError :: "int64 \<Rightarrow> int64 \<Rightarrow> QuotaError" where
  "NewTokenLimitExceededError used limit =
     \<lparr>Type = QuotaErrorTypeTokenLimitExceeded, Code = ''token_limit_exceeded'',
      Details = TokenDetails used limit\<rparr>"

definition NewCostLimitExceededError :: "float64 \<Rightarrow> float64 \<Rightarrow> QuotaError" where
  "NewCostLimitExceededError used limit =
     \<lparr>Type = QuotaErrorTypeCostLimitExceeded, Code = ''cost_limit_exceeded'',
      Details = CostDetails used limit\<rparr>"

definition NewAllowedResult :: "Policy option \<Rightarrow> QuotaUsage option \<Rightarrow> CheckResult" where
  "NewAllowedResult policy usage0 =
     (let result = \<lparr>Allowed = True, Error = None, Usage = usage0, Policy = policy,
                     RemainingTokens = None, RemainingCostUSD = None\<rparr>
      in case (policy, usage0) of
           (Some p, Some u) \<Rightarrow>
             result\<lparr>RemainingTokens :=
                      (if HasTokenLimit policy then Some (MaxTokens p - TotalTokens u) else None),
                    RemainingCostUSD :=
                      (if HasCostLimit policy then Some (MaxCostUSD p - TotalCostUSD u) else None)\<rparr>
         | _ \<Rightarrow> result)"

definition NewDeniedResult :: "QuotaError \<Rightarrow> Policy option \<Rightarrow> QuotaUsage option \<Rightarrow> CheckResult" where
  "NewDeniedResult err policy usage0 =
     \<lparr>Allowed = False, Error = Some err, Usage = usage0, Policy = policy,
      RemainingTokens = None, RemainingCostUSD = None\<rparr>"

section \<open>The Manager\<close>

text \<open>
  Every method has the pointer receiver \<open>m *Manager\<close>, so every method is modelled as a
  function that returns the manager it leaves behind, beside its result.
\<close>

definition GetPolicy :: "Manager \<Rightarrow> string \<Rightarrow> Policy option \<times> Manager" where
  "GetPolicy m apiKey = (policies m apiKey, m)"

definition newUsage :: "string \<Rightarrow> Time \<Rightarrow> QuotaUsage" where
  "newUsage apiKey now =
     \<lparr>APIKey = apiKey, TotalTokens = 0, TotalCostUSD = 0, TotalRequests = 0,
      LastUsedAt = zeroTime, CreatedAt = now\<rparr>"

definition GetUsage :: "Time \<Rightarrow> Manager \<Rightarrow> string \<Rightarrow> QuotaUsage option \<times> Manager" where
  "GetUsage now m apiKey =
     (case usage m apiKey of
        Some row \<Rightarrow> (row, m)
      | None \<Rightarrow>
          (Some (newUsage apiKey now),
           m\<lparr>usage := (usage m)(apiKey \<mapsto> Some (newUsage apiKey now))\<rparr>))"

definition GetUsageReadOnly :: "Manager \<Rightarrow> string \<Rightarrow> QuotaUsage option \<times> Manager" where
  "GetUsageReadOnly m apiKey =
     ((case usage m apiKey of None \<Rightarrow> None | Some row \<Rightarrow> row), m)"

text \<open>
  CheckQuota. The token check and the cost check are both under \<open>usage != nil\<close> in the
  source; here the two share one case distinction on the row.
\<close>

definition CheckQuota ::
  "parse_fn \<Rightarrow> Time \<Rightarrow> Manager \<Rightarrow> string \<Rightarrow> string \<Rightarrow> CheckResult \<times> Manager" where
  "CheckQuota parse now m apiKey model =
     (let (policy, m1) = GetPolicy m apiKey;
          (usage0, m2) = GetUsageReadOnly m1 apiKey
      in
        ((case policy of
            None \<Rightarrow> NewAllowedResult None usage0
          | Some p \<Rightarrow>
              if IsExpired parse now policy then
                NewDeniedResult (NewExpiredError (ParsedExpiresAt parse policy)) policy usage0
              else if \<not> IsModelAllowed policy model then
                NewDeniedResult (NewModelNotAllowedError model (AllowedModels p)) policy usage0
              else
                (case usage0 of
                   None \<Rightarrow> NewAllowedResult policy usage0
                 | Some u \<Rightarrow>
                     if HasTokenLimit policy \<and> sint (MaxTokens p) \<le> sint (TotalTokens u) then
                       NewDeniedResult
                         (NewTokenLimitExceededError (TotalTokens u) (MaxTokens p)) policy usage0
                     else if HasCostLimit policy \<and> MaxCostUSD p \<le> TotalCostUSD u then
                       NewDeniedResult
                         (NewCostLimitExceededError (TotalCostUSD u) (MaxCostUSD p)) policy usage0
                     else NewAllowedResult policy usage0)),
         m2))"

section \<open>The pricing catalog\<close>

definition GetPricing :: "PricingManager \<Rightarrow> string \<Rightarrow> ModelPricing option" where
  "GetPricing pm model = pm model"

definition SetPricing :: "PricingManager \<Rightarrow> string \<Rightarrow> ModelPricing \<Rightarrow> PricingManager" where
  "SetPricing pm model price = pm(model \<mapsto> price)"

text \<open>float64(n) of an int64 n: the nearest float64 (exact up to 2^53).\<close>

definition float64_of :: "int64 \<Rightarrow> float64" where
  "float64_of n = round64 (real_of_int (sint n))"

definition CalculateCost ::
  "PricingManager \<Rightarrow> string \<Rightarrow> int64 \<Rightarrow> int64 \<Rightarrow> int64 \<Rightarrow> float64" where
  "CalculateCost pm model inputTokens outputTokens cachedTokens =
     (case GetPricing pm model of
        None \<Rightarrow> 0
      | Some price \<Rightarrow>
          (let inputCost =
                 fdiv (fmul (float64_of inputTokens) (InputPricePerMillion price)) 1000000;
               cachedPrice =
                 (if CachedInputPricePerMillion price = 0 then InputPricePerMillion price
                  else CachedInputPricePerMillion price);
               cachedCost = fdiv (fmul (float64_of cachedTokens) cachedPrice) 1000000;
               outputCost =
                 fdiv (fmul (float64_of outputTokens) (OutputPricePerMillion price)) 1000000
           in fadd (fadd inputCost cachedCost) outputCost))"

section \<open>Updating and resetting the ledger\<close>

text \<open>
  UpdateUsage finds or creates the row, then adds to its counters through the
  pointer; a key whose entry holds nil makes the first write panic. The clock is
  read once per call (\<open>now\<close>). The cost is CalculateCost's float64; the sum
  \<open>TotalCostUSD + cost\<close> is the exact sum of the two, where Go rounds once more
  (to \<open>fadd TotalCostUSD cost\<close>, half a unit in the last place away at most).
\<close>

definition UpdateUsage ::
  "Time \<Rightarrow> Manager \<Rightarrow> string \<Rightarrow> string \<Rightarrow> int64 \<Rightarrow> int64 \<Rightarrow> int64 \<Rightarrow> panic + Manager" where
  "UpdateUsage now m apiKey model inputTokens outputTokens cachedTokens =
     (let (row, m1) =
            (case usage m apiKey of
               Some row \<Rightarrow> (row, m)
             | None \<Rightarrow>
                 (Some (newUsage apiKey now),
                  m\<lparr>usage := (usage m)(apiKey \<mapsto> Some (newUsage apiKey now))\<rparr>));
          totalTokens = inputTokens + outputTokens;
          cost = CalculateCost (pricing m) model inputTokens outputTokens cachedTokens
      in case row of
           None \<Rightarrow> Inl NilPointerDereference
         | Some u \<Rightarrow>
             Inr (m1\<lparr>usage := (usage m1)(apiKey \<mapsto>
                    Some (u\<lparr>TotalTokens := TotalTokens u + totalTokens,
                            TotalCostUSD := TotalCostUSD u + cost,
                            TotalRequests := TotalRequests u + 1,
                            LastUsedAt := now\<rparr>))\<rparr>))"

definition SetUsage :: "Manager \<Rightarrow> string \<Rightarrow> QuotaUsage option \<Rightarrow> Manager" where
  "SetUsage m apiKey row = m\<lparr>usage := (usage m)(apiKey \<mapsto> row)\<rparr>"

text \<open>AllUsage copies every row through its pointer, so a nil entry makes it panic.\<close>

definition AllUsage :: "Manager \<Rightarrow> panic + ((string \<rightharpoonup> QuotaUsage) \<times> Manager)" where
  "AllUsage m =
     (if \<exists>k \<in> dom (usage m). usage m k = Some None then Inl NilPointerDereference
      else Inr ((\<lambda>k. case usage m k of None \<Rightarrow> None | Some row \<Rightarrow> row), m))"

definition AllPolicies :: "Manager \<Rightarrow> (string \<rightharpoonup> Policy) \<times> Manager" where
  "AllPolicies m = (policies m, m)"

definition ResetUsage :: "Manager \<Rightarrow> string \<Rightarrow> Manager" where
  "ResetUsage m apiKey = m\<lparr>usage := (usage m)(apiKey := None)\<rparr>"

definition ResetAllUsage :: "Manager \<Rightarrow> Manager" where
  "ResetAllUsage m = m\<lparr>usage := Map.empty\<rparr>"

text \<open>
  Modelled from the spec: config.SDKConfig is declared outside the given sources.
  LoadPolicies reads one field of it, APIKeyPolicies, the map from API key to policy
  (section 4.2); a nil map is None.
\<close>

record SDKConfig =
  APIKeyPolicies :: "(string \<rightharpoonup> Policy) option"

definition LoadPolicies :: "Manager \<Rightarrow> SDKConfig option \<Rightarrow> Manager" where
  "LoadPolicies m cfg =
     (case cfg of
        None \<Rightarrow> m
      | Some c \<Rightarrow>
          (case APIKeyPolicies c of
             None \<Rightarrow> m\<lparr>policies := Map.empty\<rparr>
           | Some ps \<Rightarrow> m\<lparr>policies := ps\<rparr>))"

definition maskAPIKey :: "string \<Rightarrow> string" where
  "maskAPIKey key =
     (if length key \<le> 12 then ''***''
      else take 8 key @ ''...'' @ drop (length key - 4) key)"

text \<open>The values of a \<open>map[string]any\<close>, as GetQuotaStatus builds them.\<close>

datatype any =
    AnyString string
  | AnyBool bool
  | AnyInt int64
  | AnyFloat float64
  | AnyTime Time
  | AnyStrings "string list"
  | AnyMap "(string \<times> any) list"

definition GetQuotaStatus ::
  "parse_fn \<Rightarrow> Time \<Rightarrow> Manager \<Rightarrow> string \<Rightarrow> (string \<times> any) list \<times> Manager" where
  "GetQuotaStatus parse now m apiKey =
     (let (policy, m1) = GetPolicy m apiKey;
          (usage0, m2) = GetUsageReadOnly m1 apiKey
      in
       ([(''api_key'', AnyString (maskAPIKey apiKey)),
         (''has_policy'', AnyBool (policy \<noteq> None)),
         (''has_usage'', AnyBool (usage0 \<noteq> None))]
        @ (case policy of
             None \<Rightarrow> []
           | Some p \<Rightarrow>
               [(''policy'', AnyMap
                  [(''name'', AnyString (Name p)),
                   (''allowed_models'', AnyStrings (AllowedModels p)),
                   (''max_tokens'', AnyInt (MaxTokens p)),
                   (''max_cost_usd'', AnyFloat (MaxCostUSD p)),
                   (''expires_at'', AnyString (ExpiresAt p)),
                   (''is_expired'', AnyBool (IsExpired parse now policy))])])
        @ (case usage0 of
             None \<Rightarrow> []
           | Some u \<Rightarrow>
               [(''usage'', AnyMap
                  [(''total_tokens'', AnyInt (TotalTokens u)),
                   (''total_cost_usd'', AnyFloat (TotalCostUSD u)),
                   (''total_requests'', AnyInt (TotalRequests u)),
                   (''last_used_at'', AnyTime (LastUsedAt u)),
                   (''created_at'', AnyTime (CreatedAt u))])]
               @ (case policy of
                    None \<Rightarrow> []
                  | Some p \<Rightarrow>
                      (if HasTokenLimit policy then
                         [(''remaining_tokens'', AnyInt (MaxTokens p - TotalTokens u)),
                          (''token_usage_percent'',
                             AnyFloat
                               (fmul (fdiv (float64_of (TotalTokens u)) (float64_of (MaxTokens p)))
                                  100))]
                       else [])
                      @ (if HasCostLimit policy then
                           [(''remaining_cost_usd'', AnyFloat (MaxCostUSD p - TotalCostUSD u)),
                            (''cost_usage_percent'',
                               AnyFloat (fmul (fdiv (TotalCostUSD u) (MaxCostUSD p)) 100))]
                         else []))),
        m2))"

text \<open>
  The public methods of the Manager as one type of calls, and the manager each call
  leaves behind (Inl when the call panics).
\<close>

datatype call =
    CallLoadPolicies "SDKConfig option"
  | CallGetPolicy string
  | CallGetUsage string
  | CallGetUsageReadOnly string
  | CallCheckQuota string string
  | CallUpdateUsage string string int64 int64 int64
  | CallSetUsage string "QuotaUsage option"
  | CallAllUsage
  | CallAllPolicies
  | CallResetUsage string
  | CallResetAllUsage
  | CallGetQuotaStatus string

fun run_call :: "parse_fn \<Rightarrow> Time \<Rightarrow> Manager \<Rightarrow> call \<Rightarrow> panic + Manager" where
  "run_call parse now m (CallLoadPolicies cfg) = Inr (LoadPolicies m cfg)"
| "run_call parse now m (CallGetPolicy k) = Inr (snd (GetPolicy m k))"
| "run_call parse now m (CallGetUsage k) = Inr (snd (GetUsage now m k))"
| "run_call parse now m (CallGetUsageReadOnly k) = Inr (snd (GetUsageReadOnly m k))"
| "run_call parse now m (CallCheckQuota k model) = Inr (snd (CheckQuota parse now m k model))"
| "run_call parse now m (CallUpdateUsage k model i out c) = UpdateUsage now m k model i out c"
| "run_call parse now m (CallSetUsage k row) = Inr (SetUsage m k row)"
| "run_call parse now m CallAllUsage = map_sum id snd (AllUsage m)"
| "run_call parse now m CallAllPolicies = Inr (snd (AllPolicies m))"
| "run_call parse now m (CallResetUsage k) = Inr (ResetUsage m k)"
| "run_call parse now m CallResetAllUsage = Inr (ResetAllUsage m)"
| "run_call parse now m (CallGetQuotaStatus k) = Inr (snd (GetQuotaStatus parse now m k))"

section \<open>Date-only values\<close>

text \<open>
  The standard library on the layout \<open>2006-01-02\<close>: four digits, a dash, two digits,
  a dash, two digits and nothing more; the month within 1..12 and the day within the
  month; the result is midnight UTC of that day (Date with a zero clock in UTC).
\<close>

definition isDigit :: "string \<Rightarrow> nat \<Rightarrow> bool" where
  "isDigit s i = (i < length s \<and> 48 \<le> (of_char (s ! i) :: nat) \<and> (of_char (s ! i) :: nat) \<le> 57)"

definition digitAt :: "string \<Rightarrow> nat \<Rightarrow> int" where
  "digitAt s i = int (of_char (s ! i)) - 48"

definition isLeap :: "int \<Rightarrow> bool" where
  "isLeap year = (year mod 4 = 0 \<and> (year mod 400 = 0 \<or> year mod 100 \<noteq> 0))"

definition daysIn :: "int \<Rightarrow> int \<Rightarrow> int" where
  "daysIn month year =
     (if month = 2 then (if isLeap year then 29 else 28)
      else if month = 4 \<or> month = 6 \<or> month = 9 \<or> month = 11 then 30
      else 31)"

definition daysBefore :: "int \<Rightarrow> int" where
  "daysBefore month = [0, 31, 59, 90, 120, 151, 181, 212, 243, 273, 304, 334] ! nat (month - 1)"

text \<open>The number of the day: days since January 1 of year 1.\<close>

definition dayNumber :: "int \<Rightarrow> int \<Rightarrow> int \<Rightarrow> int" where
  "dayNumber year month day =
     365 * (year - 1) + (year - 1) div 4 - (year - 1) div 100 + (year - 1) div 400
     + daysBefore month + (if isLeap year \<and> 2 < month then 1 else 0) + (day - 1)"

definition Date :: "int \<Rightarrow> int \<Rightarrow> int \<Rightarrow> Time" where
  "Date year month day = dayNumber year month day * (24 * Hour)"

definition parseDateOnly :: "string \<Rightarrow> Time option" where
  "parseDateOnly v =
     (if length v = 10 \<and> isDigit v 0 \<and> isDigit v 1 \<and> isDigit v 2 \<and> isDigit v 3
         \<and> v ! 4 = CHR ''-'' \<and> isDigit v 5 \<and> isDigit v 6
         \<and> v ! 7 = CHR ''-'' \<and> isDigit v 8 \<and> isDigit v 9
      then
        (let year = 1000 * digitAt v 0 + 100 * digitAt v 1 + 10 * digitAt v 2 + digitAt v 3;
             month = 10 * digitAt v 5 + digitAt v 6;
             day = 10 * digitAt v 8 + digitAt v 9
         in if month < 1 \<or> 12 < month then None
            else if day < 1 \<or> daysIn month year < day then None
            else Some (Date year month day))
      else None)"

text \<open>
  time.Parse as the examples below need it, on values that stop after the day: the
  date-only layout is parsed as above, and the RFC 3339 layout is an error (it goes
  on with a \<open>T\<close> that such a value does not have). It is not time.Parse on a
  value that is an RFC 3339 timestamp; the theorems are about any \<open>parse\<close>.
\<close>

definition ParseDateValue :: parse_fn where
  "ParseDateValue layout v = (if layout = ''2006-01-02'' then parseDateOnly v else None)"

text \<open>
  The calendar day an instant falls on, for a clock that is \<open>offset\<close> seconds east of
  UTC: "today" in that zone.
\<close>

definition dayOf :: "int \<Rightarrow> Time \<Rightarrow> int" where
  "dayOf offset t = (t + offset * Second) div (24 * Hour)"

section \<open>Autosave\<close>

text \<open>
  The package variables of the persistence file and what StartAutoSave and
  StopAutoSave do to them, one call after the other. A channel is open or closed;
  the variable stopAutoSave is nil (None) until the first start. What cannot be
  read off the variables is recorded too: how many background savers were started,
  how many times StopAutoSave called SaveUsageToFile, and the log. The body of the
  background saver and the file system are outside this model; the error that
  SaveUsageToFile returns is an argument (None for nil).
\<close>

datatype chan = Open | Closed

datatype level = Info | Warn

record persistence =
  persistencePath :: string
  stopAutoSave :: "chan option"
  autoSaveRunning :: bool
  saversStarted :: nat
  finalSaves :: nat
  logged :: "(level \<times> string) list"

definition initialPersistence :: persistence where
  "initialPersistence =
     \<lparr>persistencePath = [], stopAutoSave = None, autoSaveRunning = False,
      saversStarted = 0, finalSaves = 0, logged = []\<rparr>"

definition StartAutoSave :: "persistence \<Rightarrow> persistence" where
  "StartAutoSave s =
     (if autoSaveRunning s then s
      else s\<lparr>stopAutoSave := Some Open,
             autoSaveRunning := True,
             saversStarted := saversStarted s + 1,
             logged := logged s @ [(Info, ''Quota usage auto-save started (interval: 1 minute)'')]\<rparr>)"

definition StopAutoSave :: "string option \<Rightarrow> persistence \<Rightarrow> panic + persistence" where
  "StopAutoSave saveErr s =
     (if \<not> autoSaveRunning s then Inr s
      else
        (case stopAutoSave s of
           None \<Rightarrow> Inl CloseOfNilChannel
         | Some Closed \<Rightarrow> Inl CloseOfClosedChannel
         | Some Open \<Rightarrow>
             Inr (s\<lparr>stopAutoSave := Some Closed,
                    autoSaveRunning := False,
                    finalSaves := finalSaves s + 1,
                    logged := logged s @
                      [(case saveErr of
                          Some err \<Rightarrow> (Warn, ''Final quota usage save failed: '' @ err)
                        | None \<Rightarrow> (Info, ''Quota usage saved on shutdown''))]\<rparr>)))"

section \<open>The contract in the specification's words\<close>

text \<open>
  Section 4.3 lists the checks of checkQuota in order, each with its error kind; a
  key without a ledger row counts as zero usage. The verdict is the kind of the
  first check that fails, if any.
\<close>

definition usedTokens :: "QuotaUsage option \<Rightarrow> int" where
  "usedTokens row = (case row of None \<Rightarrow> 0 | Some u \<Rightarrow> sint (TotalTokens u))"

definition usedCost :: "QuotaUsage option \<Rightarrow> real" where
  "usedCost row = (case row of None \<Rightarrow> 0 | Some u \<Rightarrow> TotalCostUSD u)"

definition checksInOrder ::
  "parse_fn \<Rightarrow> Time \<Rightarrow> Policy \<Rightarrow> QuotaUsage option \<Rightarrow> string \<Rightarrow> (bool \<times> QuotaErrorType) list" where
  "checksInOrder parse now p row model =
     [(IsExpired parse now (Some p), QuotaErrorTypeExpired),
      (AllowedModels p \<noteq> [] \<and> model \<notin> set (AllowedModels p), QuotaErrorTypeModelNotAllowed),
      (0 < sint (MaxTokens p) \<and> sint (MaxTokens p) \<le> usedTokens row,
         QuotaErrorTypeTokenLimitExceeded),
      (0 < MaxCostUSD p \<and> MaxCostUSD p \<le> usedCost row, QuotaErrorTypeCostLimitExceeded)]"

definition firstFailing :: "(bool \<times> QuotaErrorType) list \<Rightarrow> QuotaErrorType option" where
  "firstFailing checks = map_option snd (find fst checks)"

definition kindOf :: "CheckResult \<Rightarrow> QuotaErrorType option" where
  "kindOf r = map_option Type (Error r)"

text \<open>Section 4.1: the cost of a request, one sum divided by a million.\<close>

definition effectiveCachedPrice :: "ModelPricing \<Rightarrow> real" where
  "effectiveCachedPrice price =
     (if CachedInputPricePerMillion price = 0 then InputPricePerMillion price
      else CachedInputPricePerMillion price)"

definition costFormula :: "ModelPricing \<Rightarrow> int \<Rightarrow> int \<Rightarrow> int \<Rightarrow> real" where
  "costFormula price input output cached =
     (real_of_int input * InputPricePerMillion price
      + real_of_int cached * effectiveCachedPrice price
      + real_of_int output * OutputPricePerMillion price) / 1000000"

text \<open>The row a key has in the ledger, nil and missing alike None.\<close>

definition rowOf :: "Manager \<Rightarrow> string \<Rightarrow> QuotaUsage option" where
  "rowOf m k = fst (GetUsageReadOnly m k)"

section \<open>Example data\<close>

text \<open>A policy that restricts everything, a row that is over both limits, and two prices.\<close>

definition examplePolicy :: Policy where
  "examplePolicy =
     \<lparr>Name = ''team'', AllowedModels = [''gpt-4o'', ''claude-3-5-sonnet''],
      MaxTokens = 1000, MaxCostUSD = 5, ExpiresAt = ''2025-06-15''\<rparr>"

definition exampleRow :: QuotaUsage where
  "exampleRow =
     \<lparr>APIKey = ''key-1'', TotalTokens = 1500, TotalCostUSD = 6, TotalRequests = 3,
      LastUsedAt = 0, CreatedAt = 0\<rparr>"

definition examplePricing :: PricingManager where
  "examplePricing =
     [''gpt-4o'' \<mapsto>
        \<lparr>InputPricePerMillion = 5 / 2, OutputPricePerMillion = 10,
         CachedInputPricePerMillion = 0\<rparr>,
      ''claude-3-5-sonnet'' \<mapsto>
        \<lparr>InputPricePerMillion = 3, OutputPricePerMillion = 15,
         CachedInputPricePerMillion = lit (3 / 10)\<rparr>]"

definition claudePrice :: ModelPricing where
  "claudePrice =
     \<lparr>InputPricePerMillion = 3, OutputPricePerMillion = 15,
      CachedInputPricePerMillion = lit (3 / 10)\<rparr>"

definition gptPrice :: ModelPricing where
  "gptPrice =
     \<lparr>InputPricePerMillion = 5 / 2, OutputPricePerMillion = 10,
      CachedInputPricePerMillion = 0\<rparr>"

definition exampleManager :: Manager where
  "exampleManager =
     \<lparr>policies = [''key-1'' \<mapsto> examplePolicy],
      usage = [''key-1'' \<mapsto> Some exampleRow],
      pricing = examplePricing\<rparr>"

definition noon :: "int \<Rightarrow> int \<Rightarrow> int \<Rightarrow> Time" where
  "noon year month day = Date year month day + 12 * Hour"

definition emptyManager :: Manager where
  "emptyManager = \<lparr>policies = Map.empty, usage = Map.empty, pricing = examplePricing\<rparr>"

text \<open>A policy that caps tokens only, for a key that has no row yet.\<close>

definition tokenCapPolicy :: Policy where
  "tokenCapPolicy =
     \<lparr>Name = ''capped'', AllowedModels = [], MaxTokens = 1000, MaxCostUSD = 0, ExpiresAt = []\<rparr>"






section \<open>Reading the ledger before and after a call\<close>

text \<open>The counters of a row as Go holds them, a missing row counting as zero.\<close>

definition tokensOf :: "QuotaUsage option \<Rightarrow> int64" where
  "tokensOf row = (case row of None \<Rightarrow> 0 | Some u \<Rightarrow> TotalTokens u)"

definition requestsOf :: "QuotaUsage option \<Rightarrow> int64" where
  "requestsOf row = (case row of None \<Rightarrow> 0 | Some u \<Rightarrow> TotalRequests u)"

definition usedRequests :: "QuotaUsage option \<Rightarrow> int" where
  "usedRequests row = (case row of None \<Rightarrow> 0 | Some u \<Rightarrow> sint (TotalRequests u))"

text \<open>One call after another: a panic ends the sequence.\<close>

definition thenCall :: "panic + Manager \<Rightarrow> (Manager \<Rightarrow> panic + Manager) \<Rightarrow> panic + Manager" where
  "thenCall r f = (case r of Inl e \<Rightarrow> Inl e | Inr m \<Rightarrow> f m)"

definition rowAfter :: "panic + Manager \<Rightarrow> string \<Rightarrow> QuotaUsage option" where
  "rowAfter r k = (case r of Inl e \<Rightarrow> None | Inr m \<Rightarrow> rowOf m k)"

definition maxInt64 :: int where
  "maxInt64 = 9223372036854775807"

text \<open>The catalog has no negative price for the model (a model without prices costs 0).\<close>

definition pricesNonNegative :: "PricingManager \<Rightarrow> string \<Rightarrow> bool" where
  "pricesNonNegative pm model =
     (case pm model of
        None \<Rightarrow> True
      | Some price \<Rightarrow>
          0 \<le> InputPricePerMillion price \<and> 0 \<le> OutputPricePerMillion price \<and>
          0 \<le> CachedInputPricePerMillion price)"

text \<open>The three int64 additions of UpdateUsage stay within the int64 range.\<close>

definition addsWithinRange :: "Manager \<Rightarrow> string \<Rightarrow> int64 \<Rightarrow> int64 \<Rightarrow> bool" where
  "addsWithinRange m k inputTokens outputTokens =
     (sint inputTokens + sint outputTokens \<le> maxInt64 \<and>
      usedTokens (rowOf m k) + (sint inputTokens + sint outputTokens) \<le> maxInt64 \<and>
      usedRequests (rowOf m k) + 1 \<le> maxInt64)"



text \<open>
  The calls that can give a key a row, those that can take its row away (a row is
  what rowOf reads: SetUsage with the nil pointer leaves an entry and no row), and
  those that can take its entry out of the map.
\<close>

fun createsRow :: "string \<Rightarrow> call \<Rightarrow> bool" where
  "createsRow k (CallUpdateUsage k' model i out c) = (k' = k)"
| "createsRow k (CallSetUsage k' row) = (k' = k)"
| "createsRow k (CallGetUsage k') = (k' = k)"
| "createsRow k (CallLoadPolicies cfg) = False"
| "createsRow k (CallGetPolicy k') = False"
| "createsRow k (CallGetUsageReadOnly k') = False"
| "createsRow k (CallCheckQuota k' model) = False"
| "createsRow k CallAllUsage = False"
| "createsRow k CallAllPolicies = False"
| "createsRow k (CallResetUsage k') = False"
| "createsRow k CallResetAllUsage = False"
| "createsRow k (CallGetQuotaStatus k') = False"

fun removesRow :: "string \<Rightarrow> call \<Rightarrow> bool" where
  "removesRow k (CallResetUsage k') = (k' = k)"
| "removesRow k CallResetAllUsage = True"
| "removesRow k (CallUpdateUsage k' model i out c) = False"
| "removesRow k (CallSetUsage k' row) = (k' = k \<and> row = None)"
| "removesRow k (CallGetUsage k') = False"
| "removesRow k (CallLoadPolicies cfg) = False"
| "removesRow k (CallGetPolicy k') = False"
| "removesRow k (CallGetUsageReadOnly k') = False"
| "removesRow k (CallCheckQuota k' model) = False"
| "removesRow k CallAllUsage = False"
| "removesRow k CallAllPolicies = False"
| "removesRow k (CallGetQuotaStatus k') = False"

fun removesEntry :: "string \<Rightarrow> call \<Rightarrow> bool" where
  "removesEntry k (CallResetUsage k') = (k' = k)"
| "removesEntry k CallResetAllUsage = True"
| "removesEntry k (CallUpdateUsage k' model i out c) = False"
| "removesEntry k (CallSetUsage k' row) = False"
| "removesEntry k (CallGetUsage k') = False"
| "removesEntry k (CallLoadPolicies cfg) = False"
| "removesEntry k (CallGetPolicy k') = False"
| "removesEntry k (CallGetUsageReadOnly k') = False"
| "removesEntry k (CallCheckQuota k' model) = False"
| "removesEntry k CallAllUsage = False"
| "removesEntry k CallAllPolicies = False"
| "removesEntry k (CallGetQuotaStatus k') = False"

text \<open>The row that UpdateUsage writes back: the row it found or made, with the additions.\<close>

definition added ::
  "Manager \<Rightarrow> Time \<Rightarrow> string \<Rightarrow> int64 \<Rightarrow> int64 \<Rightarrow> int64 \<Rightarrow> QuotaUsage \<Rightarrow> QuotaUsage" where
  "added m now model i out c u =
     u\<lparr>TotalTokens := TotalTokens u + (i + out),
       TotalCostUSD := TotalCostUSD u + CalculateCost (pricing m) model i out c,
       TotalRequests := TotalRequests u + 1,
       LastUsedAt := now\<rparr>"


text \<open>
  A date-only value: not the empty string, an error under the RFC 3339 layout, and
  under the date-only layout midnight UTC of the day with number \<open>d\<close>.
\<close>

definition dateOnly :: "parse_fn \<Rightarrow> string \<Rightarrow> int \<Rightarrow> bool" where
  "dateOnly parse v d =
     (v \<noteq> [] \<and> parse RFC3339 v = None \<and> parse ''2006-01-02'' v = Some (d * (24 * Hour)))"

section \<open>The built-in catalog\<close>

text \<open>
  SetDefaultPricing fills in the models that have no price yet; DefaultModelPricing
  is the table of the source, each price the float64 of the constant written there.
\<close>

definition SetDefaultPricing :: "PricingManager \<Rightarrow> PricingManager \<Rightarrow> PricingManager" where
  "SetDefaultPricing pm defaults =
     (\<lambda>model. case pm model of Some price \<Rightarrow> Some price | None \<Rightarrow> defaults model)"

definition DefaultModelPricing :: "(string \<times> ModelPricing) list" where
  "DefaultModelPricing =
     [
      (''gpt-5'',
        \<lparr>InputPricePerMillion = lit (5 / 4), OutputPricePerMillion = 10,
         CachedInputPricePerMillion = lit (1 / 8)\<rparr>),
      (''gpt-5-codex'',
        \<lparr>InputPricePerMillion = lit (5 / 4), OutputPricePerMillion = 10,
         CachedInputPricePerMillion = lit (1 / 8)\<rparr>),
      (''gpt-5-codex-mini'',
        \<lparr>InputPricePerMillion = lit (1 / 4), OutputPricePerMillion = 2,
         CachedInputPricePerMillion = lit (1 / 40)\<rparr>),
      (''gpt-5.1'',
        \<lparr>InputPricePerMillion = lit (5 / 4), OutputPricePerMillion = 10,
         CachedInputPricePerMillion = lit (1 / 8)\<rparr>),
      (''gpt-5.1-codex'',
        \<lparr>InputPricePerMillion = lit (5 / 4), OutputPricePerMillion = 10,
         CachedInputPricePerMillion = lit (1 / 8)\<rparr>),
      (''gpt-5.1-codex-mini'',
        \<lparr>InputPricePerMillion = lit (1 / 4), OutputPricePerMillion = 2,
         CachedInputPricePerMillion = lit (1 / 40)\<rparr>),
      (''gpt-5.1-codex-max'',
        \<lparr>InputPricePerMillion = lit (5 / 4), OutputPricePerMillion = 10,
         CachedInputPricePerMillion = lit (1 / 8)\<rparr>),
      (''gpt-5.2'',
        \<lparr>InputPricePerMillion = lit (7 / 4), OutputPricePerMillion = 14,
         CachedInputPricePerMillion = lit (7 / 40)\<rparr>),
      (''gpt-5.2-codex'',
        \<lparr>InputPricePerMillion = lit (7 / 4), OutputPricePerMillion = 14,
         CachedInputPricePerMillion = lit (7 / 40)\<rparr>),
      (''gemini-2.5-pro'',
        \<lparr>InputPricePerMillion = lit (5 / 4), OutputPricePerMillion = 10,
         CachedInputPricePerMillion = 0\<rparr>),
      (''gemini-2.5-flash'',
        \<lparr>InputPricePerMillion = lit (3 / 20), OutputPricePerMillion = lit (3 / 5),
         CachedInputPricePerMillion = 0\<rparr>),
      (''gemini-2.5-flash-lite'',
        \<lparr>InputPricePerMillion = lit (3 / 40), OutputPricePerMillion = lit (3 / 10),
         CachedInputPricePerMillion = 0\<rparr>),
      (''gemini-3-pro-preview'',
        \<lparr>InputPricePerMillion = 3, OutputPricePerMillion = 15,
         CachedInputPricePerMillion = 0\<rparr>),
      (''gemini-3-flash-preview'',
        \<lparr>InputPricePerMillion = lit (1 / 2), OutputPricePerMillion = 3,
         CachedInputPricePerMillion = 0\<rparr>),
      (''kiro-claude-sonnet-4'',
        \<lparr>InputPricePerMillion = 3, OutputPricePerMillion = 15,
         CachedInputPricePerMillion = lit (3 / 10)\<rparr>),
      (''kiro-claude-sonnet-4-agentic'',
        \<lparr>InputPricePerMillion = 3, OutputPricePerMillion = 15,
         CachedInputPricePerMillion = lit (3 / 10)\<rparr>),
      (''kiro-claude-sonnet-4-5'',
        \<lparr>InputPricePerMillion = 3, OutputPricePerMillion = 15,
         CachedInputPricePerMillion = lit (3 / 10)\<rparr>),
      (''kiro-claude-sonnet-4-5-agentic'',
        \<lparr>InputPricePerMillion = 3, OutputPricePerMillion = 15,
         CachedInputPricePerMillion = lit (3 / 10)\<rparr>),
      (''kiro-claude-haiku-4-5'',
        \<lparr>InputPricePerMillion = lit (4 / 5), OutputPricePerMillion = 4,
         CachedInputPricePerMillion = lit (2 / 25)\<rparr>),
      (''kiro-claude-haiku-4-5-agentic'',
        \<lparr>InputPricePerMillion = lit (4 / 5), OutputPricePerMillion = 4,
         CachedInputPricePerMillion = lit (2 / 25)\<rparr>),
      (''kiro-claude-opus-4-5'',
        \<lparr>InputPricePerMillion = 5, OutputPricePerMillion = 25,
         CachedInputPricePerMillion = lit (1 / 2)\<rparr>),
      (''kiro-claude-opus-4-5-agentic'',
        \<lparr>InputPricePerMillion = 5, OutputPricePerMillion = 25,
         CachedInputPricePerMillion = lit (1 / 2)\<rparr>),
      (''gemini-claude-sonnet-4-5'',
        \<lparr>InputPricePerMillion = 3, OutputPricePerMillion = 15,
         CachedInputPricePerMillion = 0\<rparr>),
      (''gemini-claude-sonnet-4-5-thinking'',
        \<lparr>InputPricePerMillion = 3, OutputPricePerMillion = 15,
         CachedInputPricePerMillion = 0\<rparr>),
      (''gemini-claude-opus-4-5-thinking'',
        \<lparr>InputPricePerMillion = 5, OutputPricePerMillion = 25,
         CachedInputPricePerMillion = 0\<rparr>),
      (''gemini-3-pro-image-preview'',
        \<lparr>InputPricePerMillion = 3, OutputPricePerMillion = 15,
         CachedInputPricePerMillion = 0\<rparr>),
      (''gpt-oss-120b-medium'',
        \<lparr>InputPricePerMillion = 1, OutputPricePerMillion = 5,
         CachedInputPricePerMillion = 0\<rparr>)
     ]"

definition InitDefaultPricing :: "PricingManager \<Rightarrow> PricingManager" where
  "InitDefaultPricing pm = SetDefaultPricing pm (map_of DefaultModelPricing)"

text \<open>No price of a row is negative.\<close>

definition priceNonNegative :: "ModelPricing \<Rightarrow> bool" where
  "priceNonNegative price =
     (0 \<le> InputPricePerMillion price \<and> 0 \<le> OutputPricePerMillion price \<and>
      0 \<le> CachedInputPricePerMillion price)"

section \<open>Rounding errors\<close>

text \<open>
  \<open>approx k b y x\<close>: the float64 \<open>y\<close> stands for the number \<open>x\<close>, neither negative,
  with the relative error of \<open>k\<close> roundings and the absolute error \<open>b\<close> besides.
\<close>

definition approx :: "nat \<Rightarrow> real \<Rightarrow> real \<Rightarrow> real \<Rightarrow> bool" where
  "approx k b y x =
     (0 \<le> x \<and> 0 \<le> y \<and> 0 \<le> b \<and> \<bar>y - x\<bar> \<le> ((1 + 1 / 2 ^ 53) ^ k - 1) * x + b)"

text \<open>A number that is a float64: rounding leaves it as it is.\<close>

definition isFloat64 :: "real \<Rightarrow> bool" where
  "isFloat64 x = (round64 x = x)"

text \<open>
  One of the three costs as the code computes it: the token count converted, times
  the price, divided by a million, each step a float64.
\<close>

definition costTerm :: "int64 \<Rightarrow> float64 \<Rightarrow> float64" where
  "costTerm tokens price = fdiv (fmul (float64_of tokens) price) 1000000"

text \<open>
  The formula of section 4.1 read as float64 arithmetic in the order it is written:
  the three products, their sum, one division.
\<close>

definition costFormula64 :: "ModelPricing \<Rightarrow> int64 \<Rightarrow> int64 \<Rightarrow> int64 \<Rightarrow> float64" where
  "costFormula64 price input output cached =
     fdiv (fadd (fadd (fmul (float64_of input) (InputPricePerMillion price))
                      (fmul (float64_of cached) (effectiveCachedPrice price)))
                (fmul (float64_of output) (OutputPricePerMillion price)))
          1000000"

text \<open>
  Prices that are not negative and so far below the largest float64 (about 2^1024)
  that no cost of an int64 token count overflows.
\<close>

definition ordinaryPrice :: "ModelPricing \<Rightarrow> bool" where
  "ordinaryPrice price =
     (0 \<le> InputPricePerMillion price \<and> InputPricePerMillion price \<le> 2 ^ 900 \<and>
      0 \<le> OutputPricePerMillion price \<and> OutputPricePerMillion price \<le> 2 ^ 900 \<and>
      0 \<le> CachedInputPricePerMillion price \<and> CachedInputPricePerMillion price \<le> 2 ^ 900)"

section \<open>Properties\<close>

subsection \<open>Rounding to float64\<close>

lemma rne_error: "\<bar>of_int (rne y) - y\<bar> \<le> 1 / 2"
  unfolding rne_def Let_def by (auto; linarith)

lemma rne_nonneg: "0 \<le> y \<Longrightarrow> 0 \<le> rne y"
  unfolding rne_def Let_def by (auto; linarith?)

lemma ulp64_pos: "0 < ulp64 x"
  by (simp add: ulp64_def)

lemma minPositive64_pos: "0 < minPositive64"
  by (simp add: minPositive64_def)

lemma round64_nonneg: "0 \<le> x \<Longrightarrow> 0 \<le> round64 x"
  using ulp64_pos [of x] by (simp add: round64_def rne_nonneg)

lemma lit_nonneg: "0 \<le> x \<Longrightarrow> 0 \<le> lit x"
  by (simp add: lit_def round64_nonneg)

lemma fmul_nonneg: "0 \<le> x \<Longrightarrow> 0 \<le> y \<Longrightarrow> 0 \<le> fmul x y"
  by (simp add: fmul_def round64_nonneg)

lemma fdiv_nonneg: "0 \<le> x \<Longrightarrow> 0 \<le> y \<Longrightarrow> 0 \<le> fdiv x y"
  by (simp add: fdiv_def round64_nonneg)

lemma fadd_nonneg: "0 \<le> x \<Longrightarrow> 0 \<le> y \<Longrightarrow> 0 \<le> fadd x y"
  by (simp add: fadd_def round64_nonneg)

lemma round64_half_ulp: "\<bar>round64 x - x\<bar> \<le> ulp64 x / 2"
proof (cases "x = 0")
  case True
  then show ?thesis using ulp64_pos [of 0] by (simp add: round64_def)
next
  case False
  define q where "q = ulp64 x"
  have q: "0 < q" by (simp add: q_def ulp64_pos)
  have "round64 x - x = (of_int (rne (x / q)) - x / q) * q"
    using False q by (simp add: round64_def q_def algebra_simps)
  then have "\<bar>round64 x - x\<bar> = \<bar>of_int (rne (x / q)) - x / q\<bar> * q"
    using q by (simp add: abs_mult)
  also have "\<dots> \<le> 1 / 2 * q"
    using rne_error [of "x / q"] q by (intro mult_right_mono) simp_all
  finally show ?thesis by (simp add: q_def)
qed

lemma two_powi_floor_log: "0 < x \<Longrightarrow> 2 powi \<lfloor>log 2 x\<rfloor> \<le> x"
proof -
  assume x: "0 < x"
  have "2 powr of_int \<lfloor>log 2 x\<rfloor> \<le> 2 powr (log 2 x)"
    by (intro powr_mono) simp_all
  then show ?thesis
    using x by (simp add: powr_real_of_int')
qed

lemma ulp64_le:
  assumes "0 < x"
  shows "ulp64 x \<le> max (x / 2 ^ 52) minPositive64"
proof -
  have "2 powi (\<lfloor>log 2 x\<rfloor> - 52) = 2 powi \<lfloor>log 2 x\<rfloor> / (2 ^ 52 :: real)"
    by (simp add: power_int_diff)
  also have "\<dots> \<le> x / 2 ^ 52"
    using two_powi_floor_log [OF assms] by (simp add: divide_right_mono)
  finally have a: "2 powi (\<lfloor>log 2 x\<rfloor> - 52) \<le> x / 2 ^ 52" .
  show ?thesis
  proof (cases "\<lfloor>log 2 x\<rfloor> - 52 \<le> - 1074")
    case True
    then have "exponent64 x = - 1074"
      using assms by (simp add: exponent64_def)
    then show ?thesis by (simp add: ulp64_def minPositive64_def)
  next
    case False
    then have "exponent64 x = \<lfloor>log 2 x\<rfloor> - 52"
      using assms by (simp add: exponent64_def)
    then show ?thesis using a by (simp add: ulp64_def)
  qed
qed

lemma round64_error:
  assumes "0 \<le> x"
  shows "\<bar>round64 x - x\<bar> \<le> x / 2 ^ 53 + minPositive64 / 2"
proof (cases "x = 0")
  case True
  then show ?thesis using minPositive64_pos by (simp add: round64_def)
next
  case False
  with assms have x: "0 < x" by simp
  have "ulp64 x \<le> x / 2 ^ 52 + minPositive64"
    using ulp64_le [OF x] x minPositive64_pos by (simp add: max_def split: if_splits)
  then have "ulp64 x / 2 \<le> x / 2 ^ 53 + minPositive64 / 2"
    by simp
  then show ?thesis
    using round64_half_ulp [of x] by linarith
qed

lemma round64_error_normal:
  assumes "1 \<le> x"
  shows "\<bar>round64 x - x\<bar> \<le> x / 2 ^ 53"
proof -
  have x: "0 < x" using assms by simp
  have "0 \<le> log 2 x" using assms by simp
  then have "0 \<le> \<lfloor>log 2 x\<rfloor>" by simp
  then have "exponent64 x = \<lfloor>log 2 x\<rfloor> - 52"
    using x by (simp add: exponent64_def)
  then have "ulp64 x = 2 powi \<lfloor>log 2 x\<rfloor> / 2 ^ 52"
    by (simp add: ulp64_def power_int_diff)
  also have "\<dots> \<le> x / 2 ^ 52"
    using two_powi_floor_log [OF x] by (simp add: divide_right_mono)
  finally have "ulp64 x / 2 \<le> x / 2 ^ 53" by simp
  then show ?thesis
    using round64_half_ulp [of x] by linarith
qed

text \<open>Rounding a value whose binade is known: the way to evaluate round64.\<close>

lemma round64_eval:
  assumes "2 powi e \<le> x" "x < 2 powi (e + 1)" "- 1022 \<le> e"
  shows "round64 x = of_int (rne (x / 2 powi (e - 52))) * 2 powi (e - 52)"
proof -
  have x: "0 < x"
    using assms(1) by (smt (verit) zero_less_power_int)
  have "2 powr real_of_int e = 2 powi e" and "2 powr real_of_int (e + 1) = 2 powi (e + 1)"
    by (rule powr_real_of_int'; simp)+
  moreover have "(\<lfloor>log 2 x\<rfloor> = e) =
      (2 powr real_of_int e \<le> x \<and> x < 2 powr real_of_int (e + 1))"
    using x by (intro floor_log_eq_powr_iff) simp_all
  ultimately have "\<lfloor>log 2 x\<rfloor> = e"
    using assms by (simp only: simp_thms)
  then have "exponent64 x = e - 52"
    using x assms(3) by (simp add: exponent64_def)
  then show ?thesis
    using x by (simp add: round64_def ulp64_def)
qed

text \<open>
  How rounding errors add up: \<open>approx k b y x\<close> says that \<open>y\<close> is \<open>x\<close> after at most
  \<open>k\<close> roundings, up to the absolute error \<open>b\<close>.
\<close>

lemma approx_exact: "0 \<le> x \<Longrightarrow> approx 0 0 x x"
  by (simp add: approx_def)

lemma growth_mono: "k \<le> k' \<Longrightarrow> (1 + 1 / 2 ^ 53 :: real) ^ k \<le> (1 + 1 / 2 ^ 53) ^ k'"
  by (intro power_increasing) simp_all

lemma approx_mono:
  assumes "approx k b y x" "k \<le> k'" "b \<le> b'"
  shows "approx k' b' y x"
proof -
  from assms(1) have x: "0 \<le> x" and y: "0 \<le> y" and b: "0 \<le> b"
    and e: "\<bar>y - x\<bar> \<le> ((1 + 1 / 2 ^ 53) ^ k - 1) * x + b"
    by (simp_all add: approx_def)
  have "((1 + 1 / 2 ^ 53) ^ k - 1) * x \<le> ((1 + 1 / 2 ^ 53) ^ k' - 1) * x"
    using growth_mono [OF assms(2)] x by (intro mult_right_mono) simp_all
  with e assms(3) have "\<bar>y - x\<bar> \<le> ((1 + 1 / 2 ^ 53) ^ k' - 1) * x + b'"
    by linarith
  with x y b assms(3) show ?thesis
    by (simp add: approx_def)
qed

lemma approx_scale:
  assumes "approx k b y x" "0 \<le> c"
  shows "approx k (b * c) (y * c) (x * c)"
proof -
  from assms(1) have x: "0 \<le> x" and y: "0 \<le> y" and b: "0 \<le> b"
    and e: "\<bar>y - x\<bar> \<le> ((1 + 1 / 2 ^ 53) ^ k - 1) * x + b"
    by (simp_all add: approx_def)
  have "\<bar>y * c - x * c\<bar> = \<bar>y - x\<bar> * c"
    using assms(2) by (simp add: abs_mult flip: left_diff_distrib)
  also have "\<dots> \<le> (((1 + 1 / 2 ^ 53) ^ k - 1) * x + b) * c"
    using e assms(2) by (intro mult_right_mono)
  finally have "\<bar>y * c - x * c\<bar> \<le> ((1 + 1 / 2 ^ 53) ^ k - 1) * (x * c) + b * c"
    by (simp add: algebra_simps)
  with x y b assms(2) show ?thesis
    by (simp add: approx_def)
qed

lemma approx_add:
  assumes "approx k b1 y1 x1" "approx k b2 y2 x2"
  shows "approx k (b1 + b2) (y1 + y2) (x1 + x2)"
proof -
  from assms have "\<bar>y1 - x1\<bar> \<le> ((1 + 1 / 2 ^ 53) ^ k - 1) * x1 + b1"
    and "\<bar>y2 - x2\<bar> \<le> ((1 + 1 / 2 ^ 53) ^ k - 1) * x2 + b2"
    by (simp_all add: approx_def)
  then have "\<bar>(y1 + y2) - (x1 + x2)\<bar> \<le> ((1 + 1 / 2 ^ 53) ^ k - 1) * (x1 + x2) + (b1 + b2)"
    by (simp add: algebra_simps; linarith)
  with assms show ?thesis
    by (simp add: approx_def)
qed

lemma approx_round:
  assumes "approx k b y x"
  shows "approx (Suc k) (2 * b + minPositive64 / 2) (round64 y) x"
proof -
  define P where "P = (1 + 1 / 2 ^ 53 :: real) ^ k"
  from assms have x: "0 \<le> x" and y: "0 \<le> y" and b: "0 \<le> b"
    and e: "\<bar>y - x\<bar> \<le> (P - 1) * x + b"
    by (simp_all add: approx_def P_def)
  have r: "\<bar>round64 y - y\<bar> \<le> y / 2 ^ 53 + minPositive64 / 2"
    by (rule round64_error [OF y])
  from e have e': "\<bar>y - x\<bar> \<le> P * x - x + b"
    by (simp add: algebra_simps)
  then have "y \<le> P * x + b"
    by linarith
  then have "y / 2 ^ 53 \<le> (P * x + b) / 2 ^ 53"
    by (simp add: divide_right_mono)
  also have "\<dots> = (P * x) / 2 ^ 53 + b / 2 ^ 53"
    by (simp add: add_divide_distrib)
  also have "\<dots> \<le> (P * x) / 2 ^ 53 + b"
    using b by simp
  finally have "y / 2 ^ 53 \<le> (P * x) / 2 ^ 53 + b" .
  with r e' have "\<bar>round64 y - x\<bar> \<le> (P * x + (P * x) / 2 ^ 53 - x) + (2 * b + minPositive64 / 2)"
    by linarith
  moreover have "((1 + 1 / 2 ^ 53) ^ Suc k - 1) * x = P * x + (P * x) / 2 ^ 53 - x"
    by (simp add: P_def algebra_simps)
  ultimately have "\<bar>round64 y - x\<bar> \<le> ((1 + 1 / 2 ^ 53) ^ Suc k - 1) * x + (2 * b + minPositive64 / 2)"
    by (simp only:)
  with x b round64_nonneg [OF y] minPositive64_pos show ?thesis
    by (simp add: approx_def)
qed

lemma approx_convert:
  assumes "0 \<le> n"
  shows "approx 1 0 (round64 (of_int n)) (of_int n)"
proof (cases "n = 0")
  case True
  then show ?thesis by (simp add: approx_def round64_def)
next
  case False
  with assms have "1 \<le> (of_int n :: real)" by simp
  then have "\<bar>round64 (of_int n) - of_int n\<bar> \<le> of_int n / 2 ^ 53"
    by (rule round64_error_normal)
  with assms show ?thesis
    by (simp add: approx_def round64_nonneg)
qed

lemma growth5: "(1 + 1 / 2 ^ 53 :: real) ^ 5 - 1 \<le> 1 / 2 ^ 50"
proof -
  have "(1 + 1 / 2 ^ 53 :: real) = 9007199254740993 / 9007199254740992"
    by simp
  then show ?thesis
    by (simp add: power_divide)
qed

lemma rne_of_int: "rne (of_int n) = n"
  by (simp add: rne_def)

lemma rne_bounds: "\<lfloor>y\<rfloor> \<le> rne y" "rne y \<le> \<lfloor>y\<rfloor> + 1"
  by (simp_all add: rne_def Let_def)

lemma rne_mono:
  assumes "a \<le> b"
  shows "rne a \<le> rne b"
proof (cases "\<lfloor>a\<rfloor> = \<lfloor>b\<rfloor>")
  case True
  with assms show ?thesis
    unfolding rne_def Let_def by (auto; linarith?)
next
  case False
  with assms have "\<lfloor>a\<rfloor> + 1 \<le> \<lfloor>b\<rfloor>"
    using floor_mono [of a b] by linarith
  with rne_bounds(2) [of a] rne_bounds(1) [of b] show ?thesis
    by linarith
qed

lemma round64_le_multiple:
  assumes "x \<le> of_int n * ulp64 x"
  shows "round64 x \<le> of_int n * ulp64 x"
proof (cases "x = 0")
  case True
  with assms show ?thesis by (simp add: round64_def)
next
  case False
  have "x / ulp64 x \<le> of_int n"
    using assms ulp64_pos [of x] by (simp add: pos_divide_le_eq)
  then have "rne (x / ulp64 x) \<le> n"
    using rne_mono [of "x / ulp64 x" "of_int n"] by (simp add: rne_of_int)
  then have "of_int (rne (x / ulp64 x)) * ulp64 x \<le> of_int n * ulp64 x"
    using ulp64_pos [of x] by (intro mult_right_mono) simp_all
  with False show ?thesis by (simp add: round64_def)
qed

lemma round64_ge_multiple:
  assumes "of_int n * ulp64 x \<le> x"
  shows "of_int n * ulp64 x \<le> round64 x"
proof (cases "x = 0")
  case True
  with assms show ?thesis by (simp add: round64_def)
next
  case False
  have "of_int n \<le> x / ulp64 x"
    using assms ulp64_pos [of x] by (simp add: pos_le_divide_eq)
  then have "n \<le> rne (x / ulp64 x)"
    using rne_mono [of "of_int n" "x / ulp64 x"] by (simp add: rne_of_int)
  then have "of_int n * ulp64 x \<le> of_int (rne (x / ulp64 x)) * ulp64 x"
    using ulp64_pos [of x] by (intro mult_right_mono) simp_all
  with False show ?thesis by (simp add: round64_def)
qed

lemma powi_multiple:
  assumes "e \<le> L"
  shows "(2::real) powi L = of_int (2 ^ nat (L - e)) * 2 powi e"
proof -
  have "(2::real) powi L = 2 powi ((L - e) + e)" by simp
  also have "\<dots> = 2 powi (L - e) * 2 powi e"
    by (rule power_int_add) simp
  also have "(2::real) powi (L - e) = of_int (2 ^ nat (L - e))"
    using assms by (simp add: power_int_def)
  finally show ?thesis .
qed

lemma exponent64_mono:
  assumes "0 < x" "x \<le> y"
  shows "exponent64 x \<le> exponent64 y"
proof -
  have "log 2 x \<le> log 2 y" using assms by simp
  then have "\<lfloor>log 2 x\<rfloor> \<le> \<lfloor>log 2 y\<rfloor>" by (rule floor_mono)
  with assms show ?thesis by (simp add: exponent64_def)
qed

lemma lt_two_powi_floor_log:
  assumes "0 < x" "\<lfloor>log 2 x\<rfloor> < L"
  shows "x \<le> 2 powi L"
proof -
  have "log 2 x < of_int L" using assms(2) by (simp add: floor_less_iff)
  then have "2 powr (log 2 x) \<le> 2 powr (of_int L)"
    by (intro powr_mono) simp_all
  then show ?thesis
    using assms(1) by (simp add: powr_real_of_int')
qed

lemma round64_mono_pos:
  assumes "0 < x" "x \<le> y"
  shows "round64 x \<le> round64 y"
proof (cases "exponent64 x = exponent64 y")
  case True
  then have u: "ulp64 x = ulp64 y" by (simp add: ulp64_def)
  have "x / ulp64 y \<le> y / ulp64 y"
    using assms(2) ulp64_pos [of y] by (simp add: divide_right_mono)
  then have "rne (x / ulp64 y) \<le> rne (y / ulp64 y)" by (rule rne_mono)
  then have "of_int (rne (x / ulp64 y)) * ulp64 y \<le> of_int (rne (y / ulp64 y)) * ulp64 y"
    using ulp64_pos [of y] by (intro mult_right_mono) simp_all
  with assms u show ?thesis by (simp add: round64_def)
next
  case False
  define L where "L = \<lfloor>log 2 y\<rfloor>"
  have y: "0 < y" using assms by simp
  have lt: "exponent64 x < exponent64 y"
    using False exponent64_mono [OF assms] by simp
  have ey: "exponent64 y = L - 52"
    using lt y assms(1) by (simp add: exponent64_def L_def max_def split: if_splits)
  have lx: "\<lfloor>log 2 x\<rfloor> < L"
    using lt assms(1) ey by (simp add: exponent64_def max_def split: if_splits)
  have ex: "exponent64 x \<le> L"
    using lt ey by simp
  have "x \<le> 2 powi L"
    using assms(1) lx by (rule lt_two_powi_floor_log)
  then have "x \<le> of_int (2 ^ nat (L - exponent64 x)) * ulp64 x"
    using powi_multiple [OF ex] by (simp add: ulp64_def)
  then have "round64 x \<le> of_int (2 ^ nat (L - exponent64 x)) * ulp64 x"
    by (rule round64_le_multiple)
  then have a: "round64 x \<le> 2 powi L"
    using powi_multiple [OF ex] by (simp add: ulp64_def)
  have ey': "exponent64 y \<le> L" using ey by simp
  have "2 powi L \<le> y"
    unfolding L_def using y by (rule two_powi_floor_log)
  then have "of_int (2 ^ nat (L - exponent64 y)) * ulp64 y \<le> y"
    using powi_multiple [OF ey'] by (simp add: ulp64_def)
  then have "of_int (2 ^ nat (L - exponent64 y)) * ulp64 y \<le> round64 y"
    by (rule round64_ge_multiple)
  then have "2 powi L \<le> round64 y"
    using powi_multiple [OF ey'] by (simp add: ulp64_def)
  with a show ?thesis by simp
qed


lemma rne_minus: "rne (- y) = - rne y"
proof (cases "y = of_int \<lfloor>y\<rfloor>")
  case True
  then obtain n where "y = of_int n" ..
  then show ?thesis
    using rne_of_int [of n] rne_of_int [of "- n"] by simp
next
  case False
  then have c: "\<lceil>y\<rceil> = \<lfloor>y\<rfloor> + 1"
    by (simp add: ceiling_altdef)
  have f: "\<lfloor>- y\<rfloor> = - \<lfloor>y\<rfloor> - 1"
    using c by (simp add: floor_minus)
  show ?thesis
    unfolding rne_def Let_def f using False by (auto; linarith?)
qed

lemma round64_minus: "round64 (- x) = - round64 x"
proof -
  have "ulp64 (- x) = ulp64 x"
    by (simp add: ulp64_def exponent64_def)
  then show ?thesis
    by (simp add: round64_def rne_minus)
qed

lemma round64_mono:
  assumes "x \<le> y"
  shows "round64 x \<le> round64 y"
proof -
  consider "0 < x" | "x \<le> 0" "0 \<le> y" | "y < 0" by linarith
  then show ?thesis
  proof cases
    case 1
    then show ?thesis using assms by (rule round64_mono_pos)
  next
    case 2
    have "0 \<le> round64 (- x)" using 2(1) by (intro round64_nonneg) simp
    then have "round64 x \<le> 0" by (simp add: round64_minus)
    moreover have "0 \<le> round64 y" using 2(2) by (rule round64_nonneg)
    ultimately show ?thesis by simp
  next
    case 3
    then have "0 < - y" "- y \<le> - x" using assms by simp_all
    then have "round64 (- y) \<le> round64 (- x)" by (rule round64_mono_pos)
    then show ?thesis by (simp add: round64_minus)
  qed
qed

lemma log_two_powi: "log 2 (2 powi k) = of_int k"
proof -
  have "(2::real) powi k = 2 powr (of_int k)"
    by (simp add: powr_real_of_int')
  then show ?thesis by simp
qed

lemma round64_multiple:
  assumes "x = of_int n * 2 powi e" "exponent64 x \<le> e"
  shows "round64 x = x"
proof (cases "x = 0")
  case True
  then show ?thesis by (simp add: round64_def)
next
  case False
  define e' where "e' = exponent64 x"
  have "(2::real) powi e = of_int (2 ^ nat (e - e')) * 2 powi e'"
    using assms(2) unfolding e'_def by (rule powi_multiple)
  then have x: "x = of_int (n * 2 ^ nat (e - e')) * 2 powi e'"
    using assms(1) by simp
  have "x / 2 powi e' = of_int (n * 2 ^ nat (e - e'))"
    by (subst x) simp
  then have "rne (x / 2 powi e') = n * 2 ^ nat (e - e')"
    by (simp only: rne_of_int)
  then have "of_int (rne (x / ulp64 x)) * ulp64 x = of_int (n * 2 ^ nat (e - e')) * 2 powi e'"
    by (simp add: ulp64_def e'_def)
  with False x show ?thesis by (simp add: round64_def)
qed

lemma round64_idem_pos:
  assumes "0 < x"
  shows "round64 (round64 x) = round64 x"
proof -
  define L where "L = \<lfloor>log 2 x\<rfloor>"
  define e where "e = exponent64 x"
  define n where "n = rne (x / 2 powi e)"
  define r where "r = round64 x"
  have r: "r = of_int n * 2 powi e"
    using assms by (simp add: r_def round64_def n_def e_def ulp64_def)
  have e: "e = max (L - 52) (- 1074)"
    using assms by (simp add: e_def exponent64_def L_def)
  have n0: "0 \<le> n"
    unfolding n_def using assms by (intro rne_nonneg) simp
  have "round64 r = r"
  proof (cases "n = 0")
    case True
    with r have "r = 0" by simp
    then show ?thesis by (simp add: round64_def)
  next
    case False
    with n0 have n1: "1 \<le> n" by simp
    have "1 / 2 \<le> x / 2 powi e"
    proof (rule ccontr)
      assume "\<not> 1 / 2 \<le> x / 2 powi e"
      then have "x / 2 powi e < 1 / 2" by simp
      moreover have "0 \<le> x / 2 powi e" using assms by simp
      ultimately have "\<lfloor>x / 2 powi e\<rfloor> = 0" by (intro floor_unique) linarith+
      with \<open>x / 2 powi e < 1 / 2\<close> have "n = 0"
        by (simp add: n_def rne_def Let_def)
      with False show False by simp
    qed
    then have "2 powi e / 2 \<le> x"
      by (simp add: pos_le_divide_eq mult.commute)
    then have "2 powi (e - 1) \<le> x"
      by (simp add: power_int_diff)
    then have "log 2 (2 powi (e - 1)) \<le> log 2 x"
      using assms by (subst log_le_cancel_iff) simp_all
    then have "of_int (e - 1) \<le> log 2 x"
      by (simp only: log_two_powi)
    then have "e - 1 \<le> L"
      unfolding L_def by (simp add: le_floor_iff)
    then have eL: "e \<le> L + 1" by simp
    have "x \<le> 2 powi (L + 1)"
      using assms by (rule lt_two_powi_floor_log) (simp add: L_def)
    then have "x \<le> of_int (2 ^ nat (L + 1 - exponent64 x)) * ulp64 x"
      using powi_multiple [OF eL] by (simp add: ulp64_def e_def)
    then have "round64 x \<le> of_int (2 ^ nat (L + 1 - exponent64 x)) * ulp64 x"
      by (rule round64_le_multiple)
    then have le: "r \<le> 2 powi (L + 1)"
      using powi_multiple [OF eL] by (simp add: ulp64_def e_def r_def)
    have rpos: "0 < r"
      using n1 r by simp
    show ?thesis
    proof (cases "r = 2 powi (L + 1)")
      case True
      then have "exponent64 r = max (L + 1 - 52) (- 1074)"
        by (simp add: exponent64_def log_two_powi)
      moreover have "exponent64 r \<le> L + 1 \<Longrightarrow> round64 r = r"
        using True round64_multiple [of r 1 "L + 1"] by simp
      ultimately show ?thesis
        using eL e by (simp add: max_def split: if_splits)
    next
      case False
      with le have "r < 2 powi (L + 1)" by simp
      then have "log 2 r < log 2 (2 powi (L + 1))"
        using rpos by (subst log_less_cancel_iff) simp_all
      then have "log 2 r < of_int (L + 1)"
        by (simp only: log_two_powi)
      then have "\<lfloor>log 2 r\<rfloor> < L + 1"
        by (simp only: floor_less_iff)
      then have "\<lfloor>log 2 r\<rfloor> \<le> L"
        by simp
      then have "exponent64 r \<le> e"
        using rpos e by (simp add: exponent64_def)
      with r show ?thesis by (rule round64_multiple)
    qed
  qed
  then show ?thesis by (simp add: r_def)
qed

lemma round64_idem: "round64 (round64 x) = round64 x"
proof -
  consider "0 < x" | "x = 0" | "0 < - x" by linarith
  then show ?thesis
  proof cases
    case 1
    then show ?thesis by (rule round64_idem_pos)
  next
    case 2
    then show ?thesis by (simp add: round64_def)
  next
    case 3
    then have "round64 (round64 (- x)) = round64 (- x)" by (rule round64_idem_pos)
    then show ?thesis by (simp add: round64_minus)
  qed
qed

lemma fadd_not_lower:
  assumes "isFloat64 x" "0 \<le> c"
  shows "x \<le> fadd x c"
proof -
  have "round64 x \<le> round64 (x + c)"
    using assms(2) by (intro round64_mono) simp
  with assms(1) show ?thesis by (simp add: isFloat64_def fadd_def)
qed

subsection \<open>Auxiliary facts\<close>

lemmas date_defs = ParseDateValue_def parseDateOnly_def isDigit_def digitAt_def daysIn_def isLeap_def
  Date_def dayNumber_def daysBefore_def Hour_def Second_def noon_def

lemma anyAllowed_set: "anyAllowed xs model = (model \<in> set xs)"
  by (induction xs) auto

lemma IsModelAllowed_Some:
  "IsModelAllowed (Some p) model = (AllowedModels p = [] \<or> model \<in> set (AllowedModels p))"
  by (auto simp: IsModelAllowed_def HasModelRestriction_def anyAllowed_set)

lemma fst_CheckQuota_no_policy:
  "policies m k = None \<Longrightarrow>
   fst (CheckQuota parse now m k model) = NewAllowedResult None (rowOf m k)"
  by (simp add: CheckQuota_def GetPolicy_def GetUsageReadOnly_def rowOf_def)

lemma fst_CheckQuota_policy:
  "policies m k = Some p \<Longrightarrow>
   fst (CheckQuota parse now m k model) =
     (if IsExpired parse now (Some p) then
        NewDeniedResult (NewExpiredError (ParsedExpiresAt parse (Some p))) (Some p) (rowOf m k)
      else if \<not> IsModelAllowed (Some p) model then
        NewDeniedResult (NewModelNotAllowedError model (AllowedModels p)) (Some p) (rowOf m k)
      else
        (case rowOf m k of
           None \<Rightarrow> NewAllowedResult (Some p) None
         | Some u \<Rightarrow>
             if HasTokenLimit (Some p) \<and> sint (MaxTokens p) \<le> sint (TotalTokens u) then
               NewDeniedResult
                 (NewTokenLimitExceededError (TotalTokens u) (MaxTokens p)) (Some p) (Some u)
             else if HasCostLimit (Some p) \<and> MaxCostUSD p \<le> TotalCostUSD u then
               NewDeniedResult
                 (NewCostLimitExceededError (TotalCostUSD u) (MaxCostUSD p)) (Some p) (Some u)
             else NewAllowedResult (Some p) (Some u)))"
  by (simp add: CheckQuota_def GetPolicy_def GetUsageReadOnly_def rowOf_def split: option.splits)

lemma Allowed_NewAllowedResult [simp]: "Allowed (NewAllowedResult p u) = True"
  by (simp add: NewAllowedResult_def Let_def split: option.splits)

lemma Error_NewAllowedResult [simp]: "Error (NewAllowedResult p u) = None"
  by (simp add: NewAllowedResult_def Let_def split: option.splits)

lemma kindOf_NewAllowedResult [simp]: "kindOf (NewAllowedResult p u) = None"
  by (simp add: kindOf_def)

lemma Allowed_NewDeniedResult [simp]: "Allowed (NewDeniedResult e p u) = False"
  by (simp add: NewDeniedResult_def)

lemma kindOf_NewDeniedResult [simp]: "kindOf (NewDeniedResult e p u) = Some (Type e)"
  by (simp add: kindOf_def NewDeniedResult_def)

lemma Type_errors [simp]:
  "Type (NewExpiredError t) = QuotaErrorTypeExpired"
  "Type (NewModelNotAllowedError model ms) = QuotaErrorTypeModelNotAllowed"
  "Type (NewTokenLimitExceededError a b) = QuotaErrorTypeTokenLimitExceeded"
  "Type (NewCostLimitExceededError x y) = QuotaErrorTypeCostLimitExceeded"
  by (simp_all add: NewExpiredError_def NewModelNotAllowedError_def
      NewTokenLimitExceededError_def NewCostLimitExceededError_def)

lemma rowOf_upd [simp]:
  "rowOf (m\<lparr>usage := (usage m)(k \<mapsto> row)\<rparr>) k' = (if k' = k then row else rowOf m k')"
  by (simp add: rowOf_def GetUsageReadOnly_def)

lemma rowOf_cases:
  "rowOf m k = (case usage m k of None \<Rightarrow> None | Some row \<Rightarrow> row)"
  by (simp add: rowOf_def GetUsageReadOnly_def)

lemma UpdateUsage_nil:
  "usage m k = Some None \<Longrightarrow> UpdateUsage now m k model i out c = Inl NilPointerDereference"
  by (simp add: UpdateUsage_def)

lemma UpdateUsage_new:
  "usage m k = None \<Longrightarrow>
   UpdateUsage now m k model i out c =
     Inr (m\<lparr>usage := (usage m)(k \<mapsto> Some (added m now model i out c (newUsage k now)))\<rparr>)"
  by (simp add: UpdateUsage_def added_def)

lemma UpdateUsage_row:
  "usage m k = Some (Some u) \<Longrightarrow>
   UpdateUsage now m k model i out c =
     Inr (m\<lparr>usage := (usage m)(k \<mapsto> Some (added m now model i out c u))\<rparr>)"
  by (simp add: UpdateUsage_def added_def)

lemma AllUsage_Inr: "AllUsage m = Inr x \<Longrightarrow> snd x = m"
  by (auto simp: AllUsage_def split: if_splits)

lemma GetQuotaStatus_reads_only: "snd (GetQuotaStatus parse now m k) = m"
  by (simp add: GetQuotaStatus_def GetPolicy_def GetUsageReadOnly_def)

lemma CheckQuota_snd: "snd (CheckQuota parse now m k model) = m"
  by (simp add: CheckQuota_def GetPolicy_def GetUsageReadOnly_def)

lemma usage_LoadPolicies: "usage (LoadPolicies m cfg) = usage m"
  by (simp add: LoadPolicies_def split: option.splits)


lemma sint_add_in_range:
  fixes a d :: int64
  assumes "0 \<le> sint d" "sint a + sint d \<le> maxInt64"
  shows "sint (a + d) = sint a + sint d"
proof -
  have "- (2 ^ 63) \<le> sint a"
    using sint_ge [of a] by simp
  then have "- (2 ^ 63) \<le> sint a + sint d" "sint a + sint d < 2 ^ 63"
    using assms by (simp_all add: maxInt64_def)
  then show ?thesis
    by (simp add: sint_word_ariths signed_take_bit_int_eq_self)
qed

lemma added_exact:
  assumes "0 \<le> sint i" "0 \<le> sint out"
    and "sint i + sint out \<le> maxInt64"
    and "sint (TotalTokens u) + (sint i + sint out) \<le> maxInt64"
    and "sint (TotalRequests u) + 1 \<le> maxInt64"
  shows "sint (TotalTokens (added m now model i out c u)) = sint (TotalTokens u) + (sint i + sint out)"
    and "sint (TotalRequests (added m now model i out c u)) = sint (TotalRequests u) + 1"
proof -
  have io: "sint (i + out) = sint i + sint out"
    using assms by (intro sint_add_in_range) simp_all
  then have "sint (TotalTokens u + (i + out)) = sint (TotalTokens u) + sint (i + out)"
    using assms by (intro sint_add_in_range) simp_all
  with io show "sint (TotalTokens (added m now model i out c u)) = sint (TotalTokens u) + (sint i + sint out)"
    by (simp add: added_def)
  have "sint (TotalRequests u + 1) = sint (TotalRequests u) + sint (1 :: int64)"
    using assms by (intro sint_add_in_range) simp_all
  then show "sint (TotalRequests (added m now model i out c u)) = sint (TotalRequests u) + 1"
    by (simp add: added_def)
qed

lemma example_policies: "policies exampleManager ''key-1'' = Some examplePolicy"
  by (simp add: exampleManager_def)

lemma example_row: "rowOf exampleManager ''key-1'' = Some exampleRow"
  by (simp add: exampleManager_def rowOf_def GetUsageReadOnly_def)

lemma example_expired: "IsExpired ParseDateValue (noon 2025 6 16) (Some examplePolicy)"
  by (simp add: IsExpired_def HasExpiration_def ParsedExpiresAt_def examplePolicy_def
        IsZero_def zeroTime_def After_def Add_def RFC3339_def date_defs)

lemma example_not_expired: "\<not> IsExpired ParseDateValue (noon 2025 6 15) (Some examplePolicy)"
  by (simp add: IsExpired_def HasExpiration_def ParsedExpiresAt_def examplePolicy_def
        IsZero_def zeroTime_def After_def Add_def RFC3339_def date_defs)





subsection \<open>The order of the checks\<close>

text \<open>
  C1. CheckQuota allows a key that has no policy. For a key with a policy it goes
  through the checks in the order expiration, allow-list of models (a check only
  when the list is not empty), token limit, cost limit: the result is a denial that
  carries the kind of the first check that fails, and it is allowed when none fails.
\<close>

theorem CheckQuota_first_failing_check:
  "(policies m k = None \<longrightarrow>
      Allowed (fst (CheckQuota parse now m k model)) \<and>
      Error (fst (CheckQuota parse now m k model)) = None) \<and>
   (\<forall>p. policies m k = Some p \<longrightarrow>
      (case firstFailing (checksInOrder parse now p (rowOf m k) model) of
         None \<Rightarrow>
           Allowed (fst (CheckQuota parse now m k model)) \<and>
           Error (fst (CheckQuota parse now m k model)) = None
       | Some kind \<Rightarrow>
           \<not> Allowed (fst (CheckQuota parse now m k model)) \<and>
           kindOf (fst (CheckQuota parse now m k model)) = Some kind))"
proof (intro conjI allI impI)
  assume "policies m k = None"
  then show "Allowed (fst (CheckQuota parse now m k model))"
    and "Error (fst (CheckQuota parse now m k model)) = None"
    by (simp_all add: fst_CheckQuota_no_policy)
next
  fix p
  assume p: "policies m k = Some p"
  show "case firstFailing (checksInOrder parse now p (rowOf m k) model) of
         None \<Rightarrow>
           Allowed (fst (CheckQuota parse now m k model)) \<and>
           Error (fst (CheckQuota parse now m k model)) = None
       | Some kind \<Rightarrow>
           \<not> Allowed (fst (CheckQuota parse now m k model)) \<and>
           kindOf (fst (CheckQuota parse now m k model)) = Some kind"
  proof (cases "rowOf m k")
    case None
    then show ?thesis
      by (auto simp: fst_CheckQuota_policy [OF p] firstFailing_def checksInOrder_def
          IsModelAllowed_Some usedTokens_def usedCost_def)
  next
    case (Some u)
    then show ?thesis
      by (auto simp: fst_CheckQuota_policy [OF p] firstFailing_def checksInOrder_def
          IsModelAllowed_Some usedTokens_def usedCost_def HasTokenLimit_def HasCostLimit_def)
  qed
qed

theorem CheckQuota_first_failing_check_witness:
  "policies exampleManager ''key-1'' = Some examplePolicy \<and>
   \<not> Allowed (fst (CheckQuota ParseDateValue (noon 2025 6 16) exampleManager ''key-1'' ''gemini-2.0-flash'')) \<and>
   kindOf (fst (CheckQuota ParseDateValue (noon 2025 6 16) exampleManager ''key-1'' ''gemini-2.0-flash''))
     = Some QuotaErrorTypeExpired"
  using CheckQuota_first_failing_check
    [of exampleManager "''key-1''" ParseDateValue "noon 2025 6 16" "''gemini-2.0-flash''"]
  by (simp add: example_policies example_row example_expired firstFailing_def checksInOrder_def)

subsection \<open>The token limit\<close>

text \<open>
  C2, as stated: with maxTokens = L > 0 and totalTokens \<ge> L every CheckQuota for the
  key is denied with kind token_limit_exceeded, whatever the model. It is not: the
  allow-list is checked before the token limit, so a model outside the list is
  denied with kind model_not_allowed.
\<close>

theorem token_limit_regardless_of_model_counterexample:
  "policies exampleManager ''key-1'' = Some examplePolicy \<and>
   rowOf exampleManager ''key-1'' = Some exampleRow \<and>
   0 < sint (MaxTokens examplePolicy) \<and>
   sint (MaxTokens examplePolicy) \<le> sint (TotalTokens exampleRow) \<and>
   kindOf (fst (CheckQuota ParseDateValue (noon 2025 6 15) exampleManager ''key-1'' ''gemini-2.0-flash''))
     = Some QuotaErrorTypeModelNotAllowed"
proof -
  have a: "0 < sint (MaxTokens examplePolicy)"
    and b: "sint (MaxTokens examplePolicy) \<le> sint (TotalTokens exampleRow)"
    and c: "AllowedModels examplePolicy \<noteq> []"
    and d: "''gemini-2.0-flash'' \<notin> set (AllowedModels examplePolicy)"
    by (simp_all add: examplePolicy_def exampleRow_def)
  show ?thesis
    by (simp add: fst_CheckQuota_policy [OF example_policies] example_policies example_row
        example_not_expired IsModelAllowed_Some a b c d)
qed

text \<open>
  C2, amended. With maxTokens = L > 0 and a row whose totalTokens \<ge> L, every
  CheckQuota for the key is denied, for every model and at every time. The kind is
  that of the first check that fails: expired for an expired policy, else
  model_not_allowed for a model outside a non-empty allow-list, else
  token_limit_exceeded. Once the row is reset (ResetUsage), the token limit denies
  no more: the key is allowed unless the policy is expired or the model is not
  allowed.
\<close>

theorem token_limit_denies:
  assumes "policies m k = Some p" and "0 < sint (MaxTokens p)"
    and "rowOf m k = Some u" and "sint (MaxTokens p) \<le> sint (TotalTokens u)"
  shows "\<not> Allowed (fst (CheckQuota parse now m k model)) \<and>
    kindOf (fst (CheckQuota parse now m k model)) =
      Some (if IsExpired parse now (Some p) then QuotaErrorTypeExpired
            else if AllowedModels p \<noteq> [] \<and> model \<notin> set (AllowedModels p)
              then QuotaErrorTypeModelNotAllowed
            else QuotaErrorTypeTokenLimitExceeded) \<and>
    Allowed (fst (CheckQuota parse now (ResetUsage m k) k model)) =
      (\<not> IsExpired parse now (Some p) \<and>
       (AllowedModels p = [] \<or> model \<in> set (AllowedModels p)))"
proof -
  have "policies (ResetUsage m k) k = Some p" and "rowOf (ResetUsage m k) k = None"
    using assms(1) by (simp_all add: ResetUsage_def rowOf_def GetUsageReadOnly_def)
  then have "Allowed (fst (CheckQuota parse now (ResetUsage m k) k model)) =
      (\<not> IsExpired parse now (Some p) \<and>
       (AllowedModels p = [] \<or> model \<in> set (AllowedModels p)))"
    by (simp add: fst_CheckQuota_policy IsModelAllowed_Some)
  with assms show ?thesis
    by (simp add: fst_CheckQuota_policy IsModelAllowed_Some HasTokenLimit_def)
qed

theorem token_limit_denies_witness:
  "policies exampleManager ''key-1'' = Some examplePolicy \<and>
   0 < sint (MaxTokens examplePolicy) \<and>
   rowOf exampleManager ''key-1'' = Some exampleRow \<and>
   sint (MaxTokens examplePolicy) \<le> sint (TotalTokens exampleRow) \<and>
   \<not> Allowed (fst (CheckQuota ParseDateValue (noon 2025 6 15) exampleManager ''key-1'' ''gpt-4o'')) \<and>
   kindOf (fst (CheckQuota ParseDateValue (noon 2025 6 15) exampleManager ''key-1'' ''gpt-4o''))
     = Some QuotaErrorTypeTokenLimitExceeded \<and>
   Allowed (fst (CheckQuota ParseDateValue (noon 2025 6 15)
      (ResetUsage exampleManager ''key-1'') ''key-1'' ''gpt-4o''))"
proof -
  have a: "0 < sint (MaxTokens examplePolicy)"
    and b: "sint (MaxTokens examplePolicy) \<le> sint (TotalTokens exampleRow)"
    by (simp_all add: examplePolicy_def exampleRow_def)
  have c: "''gpt-4o'' \<in> set (AllowedModels examplePolicy)"
    by (simp add: examplePolicy_def)
  show ?thesis
    using token_limit_denies [OF example_policies a example_row b,
        of ParseDateValue "noon 2025 6 15" "''gpt-4o''"]
    by (simp add: example_policies example_row a b c example_not_expired)
qed

subsection \<open>The remaining margins\<close>




subsection \<open>Expiration\<close>

text \<open>
  C4. The claim is end-of-day semantics: a date-only expiresAt equal to today is not
  expired. The code sets the expiry to midnight UTC of that day plus 24 hours minus
  one second, and compares instants. So on 2025-06-15 at 23:59:59.5 UTC a policy
  with expiresAt 2025-06-15 is expired, half a second before the day ends; and for
  a clock eight hours west of UTC it is expired from 16:00 local time on: at 20:00
  on 2025-06-15 there (04:00 UTC on the 16th) today is still the 15th.
\<close>

theorem expired_on_the_expiry_day:
  "ExpiresAt examplePolicy = ''2025-06-15'' \<and>
   parseDateOnly ''2025-06-15'' = Some (Date 2025 6 15) \<and>
   dayOf 0 (Date 2025 6 15 + 23 * Hour + 3599 * Second + 500000000) = dayNumber 2025 6 15 \<and>
   IsExpired ParseDateValue (Date 2025 6 15 + 23 * Hour + 3599 * Second + 500000000)
     (Some examplePolicy) \<and>
   dayOf (- 8 * 3600) (Date 2025 6 16 + 4 * Hour) = dayNumber 2025 6 15 \<and>
   IsExpired ParseDateValue (Date 2025 6 16 + 4 * Hour) (Some examplePolicy)"
  by (simp add: IsExpired_def HasExpiration_def ParsedExpiresAt_def examplePolicy_def
        IsZero_def zeroTime_def After_def Add_def RFC3339_def dayOf_def date_defs)

text \<open>
  X1. A policy without expiresAt, and no policy at all, is never expired, whatever
  the clock and whatever the parser.
\<close>

theorem no_expiry_never_expires:
  "\<not> IsExpired parse now None \<and> \<not> IsExpired parse now (Some (p\<lparr>ExpiresAt := []\<rparr>))"
  by (simp add: IsExpired_def HasExpiration_def)

lemma dateOnly_IsExpired:
  assumes "dateOnly parse (ExpiresAt p) d"
  shows "IsExpired parse now (Some p) = (d * (24 * Hour) + (24 * Hour - Second) < now)"
proof -
  have "d * 86400000000000 + 86399000000000 \<noteq> (0 :: int)"
  proof (cases "d \<le> - 1")
    case True
    then show ?thesis by linarith
  next
    case False
    then have "0 \<le> d" by simp
    then show ?thesis by linarith
  qed
  with assms show ?thesis
    by (simp add: dateOnly_def IsExpired_def HasExpiration_def ParsedExpiresAt_def IsZero_def
        zeroTime_def After_def Add_def Hour_def Second_def)
qed

lemma dayOf_bounds:
  "dayOf offset now * 86400000000000 \<le> now + offset * 1000000000"
  "now + offset * 1000000000 < dayOf offset now * 86400000000000 + 86400000000000"
proof -
  define x where "x = now + offset * 1000000000"
  have "x = x div 86400000000000 * 86400000000000 + x mod 86400000000000"
    by simp
  moreover have "0 \<le> x mod 86400000000000" and "x mod 86400000000000 < 86400000000000"
    by simp_all
  ultimately have "x div 86400000000000 * 86400000000000 \<le> x"
    and "x < x div 86400000000000 * 86400000000000 + 86400000000000"
    by linarith+
  then show "dayOf offset now * 86400000000000 \<le> now + offset * 1000000000"
    and "now + offset * 1000000000 < dayOf offset now * 86400000000000 + 86400000000000"
    by (simp_all add: dayOf_def Hour_def Second_def x_def)
qed

text \<open>
  X2. A policy whose expiresAt is a date-only value for the day \<open>d\<close> is expired
  exactly at the instants after 23:59:59 UTC of that day. For a clock at most a day
  away from UTC it is expired when the day is 365 or more days before today, and
  not expired when it is 365 or more days after today; for a clock at least one
  second east of UTC it is not expired today.
\<close>

theorem date_only_expiry:
  assumes "dateOnly parse (ExpiresAt p) d"
  shows "IsExpired parse now (Some p) = (d * (24 * Hour) + (24 * Hour - Second) < now) \<and>
    (- 86400 \<le> offset \<and> offset \<le> 86400 \<and> d + 365 \<le> dayOf offset now \<longrightarrow>
       IsExpired parse now (Some p)) \<and>
    (- 86400 \<le> offset \<and> offset \<le> 86400 \<and> dayOf offset now + 365 \<le> d \<longrightarrow>
       \<not> IsExpired parse now (Some p)) \<and>
    (1 \<le> offset \<and> dayOf offset now = d \<longrightarrow> \<not> IsExpired parse now (Some p))"
proof -
  note b = dayOf_bounds [where offset = offset and now = now]
  have "d + 365 \<le> dayOf offset now \<Longrightarrow> - 86400 \<le> offset \<Longrightarrow> offset \<le> 86400 \<Longrightarrow>
      d * 86400000000000 + 86399000000000 < now"
    using b by linarith
  moreover have "dayOf offset now + 365 \<le> d \<Longrightarrow> - 86400 \<le> offset \<Longrightarrow> offset \<le> 86400 \<Longrightarrow>
      \<not> d * 86400000000000 + 86399000000000 < now"
    using b by linarith
  moreover have "dayOf offset now = d \<Longrightarrow> 1 \<le> offset \<Longrightarrow>
      \<not> d * 86400000000000 + 86399000000000 < now"
    using b by linarith
  ultimately show ?thesis
    by (simp add: dateOnly_IsExpired [OF assms] Hour_def Second_def)
qed

lemma example_dateOnly: "dateOnly ParseDateValue (ExpiresAt examplePolicy) (dayNumber 2025 6 15)"
  by (simp add: dateOnly_def examplePolicy_def RFC3339_def date_defs)

theorem date_only_expiry_witness:
  "dateOnly ParseDateValue (ExpiresAt examplePolicy) (dayNumber 2025 6 15) \<and>
   dayNumber 2025 6 15 + 365 \<le> dayOf 0 (noon 2026 6 15) \<and>
   IsExpired ParseDateValue (noon 2026 6 15) (Some examplePolicy) \<and>
   dayOf 0 (noon 2024 6 15) + 365 \<le> dayNumber 2025 6 15 \<and>
   \<not> IsExpired ParseDateValue (noon 2024 6 15) (Some examplePolicy) \<and>
   dayOf 7200 (noon 2025 6 15) = dayNumber 2025 6 15 \<and>
   \<not> IsExpired ParseDateValue (noon 2025 6 15) (Some examplePolicy)"
proof -
  have a: "dayNumber 2025 6 15 + 365 \<le> dayOf 0 (noon 2026 6 15)"
    and b: "dayOf 0 (noon 2024 6 15) + 365 \<le> dayNumber 2025 6 15"
    and c: "dayOf 7200 (noon 2025 6 15) = dayNumber 2025 6 15"
    by (simp_all add: dayOf_def date_defs)
  show ?thesis
    using date_only_expiry [OF example_dateOnly, of "noon 2026 6 15" 0, THEN conjunct2]
      date_only_expiry [OF example_dateOnly, of "noon 2024 6 15" 0, THEN conjunct2]
      date_only_expiry [OF example_dateOnly, of "noon 2025 6 15" 7200, THEN conjunct2]
    by (simp add: example_dateOnly a b c)
qed

subsection \<open>The cost of a request\<close>

lemma lit_3_10: "lit (3 / 10) = 5404319552844595 / 18014398509481984"
  using round64_eval [of "- 2" "3 / 10"]
  by (simp add: lit_def power_int_minus rne_def Let_def)

lemma float64_of_small:
  "float64_of 1000 = 1000" "float64_of 500 = 500" "float64_of 2000 = 2000" "float64_of 0 = 0"
  using round64_eval [of 9 1000] round64_eval [of 8 500] round64_eval [of 10 2000]
  by (simp_all add: float64_of_def power_int_minus rne_def Let_def round64_def)

lemma claude_products:
  "fmul 1000 3 = 3000" "fmul 500 15 = 7500"
  "fmul 2000 (5404319552844595 / 18014398509481984) = 600"
  using round64_eval [of 11 3000] round64_eval [of 12 7500]
    round64_eval [of 9 "675539944105574375 / 1125899906842624"]
  by (simp_all add: fmul_def power_int_minus rne_def Let_def)

lemma claude_quotients:
  "fdiv 3000 1000000 = 3458764513820541 / 1152921504606846976"
  "fdiv 600 1000000 = 5534023222112865 / 9223372036854775808"
  "fdiv 7500 1000000 = 1080863910568919 / 144115188075855872"
  using round64_eval [of "- 9" "3 / 1000"] round64_eval [of "- 11" "3 / 5000"]
    round64_eval [of "- 8" "3 / 400"]
  by (simp_all add: fdiv_def power_int_minus rne_def Let_def)

lemma claude_sums:
  "fadd (3458764513820541 / 1152921504606846976) (5534023222112865 / 9223372036854775808)
     = 4150517416584649 / 1152921504606846976"
  "fadd (4150517416584649 / 1152921504606846976) (1080863910568919 / 144115188075855872)
     = 99979911727625 / 9007199254740992"
  using round64_eval [of "- 9" "33204139332677193 / 9223372036854775808"]
    round64_eval [of "- 7" "12797428701136001 / 1152921504606846976"]
  by (simp_all add: fadd_def power_int_minus rne_def Let_def)

lemma claude_price:
  "examplePricing ''claude-3-5-sonnet'' =
     Some \<lparr>InputPricePerMillion = 3, OutputPricePerMillion = 15,
           CachedInputPricePerMillion = lit (3 / 10)\<rparr>"
  by (simp add: examplePricing_def)

lemma claude_cost:
  "CalculateCost examplePricing ''claude-3-5-sonnet'' 1000 500 2000
     = 99979911727625 / 9007199254740992"
  by (simp add: CalculateCost_def GetPricing_def claude_price Let_def lit_3_10
      float64_of_small claude_products claude_quotients claude_sums)

lemma claude_formula:
  "costFormula claudePrice 1000 500 2000 = 99979911727625011 / 9007199254740992000"
  by (simp add: costFormula_def effectiveCachedPrice_def claudePrice_def lit_3_10)

lemma claude_formula64:
  "costFormula64 claudePrice 1000 500 2000 = 6398714350568001 / 576460752303423488"
proof -
  have "fadd 3000 600 = 3600" "fadd 3600 7500 = 11100"
    "fdiv 11100 1000000 = 6398714350568001 / 576460752303423488"
    using round64_eval [of 11 3600] round64_eval [of 13 11100]
      round64_eval [of "- 7" "111 / 10000"]
    by (simp_all add: fadd_def fdiv_def power_int_minus rne_def Let_def)
  then show ?thesis
    by (simp add: costFormula64_def effectiveCachedPrice_def claudePrice_def lit_3_10
        float64_of_small claude_products)
qed

text \<open>
  C5, as stated: for a model with a catalog entry CalculateCost equals
  input * inputPrice + cached * effectiveCachedPrice + output * outputPrice, all
  divided by 1,000,000. It does not: the code works in float64, divides each of the
  three products by 1,000,000 on its own and adds the three quotients, and every one
  of these operations rounds. For 1000 input, 500 output and 2000 cached tokens of
  claude-3-5-sonnet it returns 99979911727625 / 2^53 (printed 0.011099999999999999),
  which is neither the number the formula gives nor the float64 that the formula
  gives when its operations are done in float64 with one division at the end
  (0.0111).
\<close>

theorem cost_is_not_the_formula_counterexample:
  "examplePricing ''claude-3-5-sonnet'' = Some claudePrice \<and>
   CalculateCost examplePricing ''claude-3-5-sonnet'' 1000 500 2000
     = 99979911727625 / 9007199254740992 \<and>
   costFormula claudePrice 1000 500 2000 = 99979911727625011 / 9007199254740992000 \<and>
   costFormula64 claudePrice 1000 500 2000 = 6398714350568001 / 576460752303423488 \<and>
   CalculateCost examplePricing ''claude-3-5-sonnet'' 1000 500 2000
     \<noteq> costFormula claudePrice 1000 500 2000 \<and>
   CalculateCost examplePricing ''claude-3-5-sonnet'' 1000 500 2000
     \<noteq> costFormula64 claudePrice 1000 500 2000"
  by (simp add: claude_cost claude_formula claude_formula64)
    (simp add: examplePricing_def claudePrice_def)

lemma approx_round_to:
  assumes "approx k b y x" "k' = Suc k"
  shows "approx k' (2 * b + minPositive64 / 2) (round64 y) x"
  using approx_round [OF assms(1)] assms(2) by simp

lemma approx_div:
  assumes "approx k b y x" "0 < c"
  shows "approx k (b / c) (y / c) (x / c)"
  using approx_scale [OF assms(1), of "1 / c"] assms(2) by simp

lemma costTerm_approx:
  assumes "0 \<le> sint t" "0 \<le> p"
  shows "approx 3 (3 / 2 * minPositive64) (costTerm t p) (of_int (sint t) * p / 1000000)"
proof -
  have "approx 1 0 (float64_of t) (of_int (sint t))"
    unfolding float64_of_def by (rule approx_convert [OF assms(1)])
  then have "approx 1 (0 * p) (float64_of t * p) (of_int (sint t) * p)"
    by (rule approx_scale [OF _ assms(2)])
  then have "approx 2 (2 * (0 * p) + minPositive64 / 2)
      (fmul (float64_of t) p) (of_int (sint t) * p)"
    unfolding fmul_def by (rule approx_round_to) simp
  then have "approx 2 ((2 * (0 * p) + minPositive64 / 2) / 1000000)
      (fmul (float64_of t) p / 1000000) (of_int (sint t) * p / 1000000)"
    by (rule approx_div) simp
  then have "approx 2 (minPositive64 / 2) (fmul (float64_of t) p / 1000000)
      (of_int (sint t) * p / 1000000)"
    using minPositive64_pos by (elim approx_mono) simp_all
  then have "approx 3 (2 * (minPositive64 / 2) + minPositive64 / 2)
      (costTerm t p) (of_int (sint t) * p / 1000000)"
    unfolding costTerm_def fdiv_def by (rule approx_round_to) simp
  then show ?thesis
    by (elim approx_mono) simp_all
qed

lemma CalculateCost_costTerm:
  "pm model = Some price \<Longrightarrow>
   CalculateCost pm model i out c =
     fadd (fadd (costTerm i (InputPricePerMillion price))
                (costTerm c (effectiveCachedPrice price)))
          (costTerm out (OutputPricePerMillion price))"
  by (simp add: CalculateCost_def GetPricing_def Let_def costTerm_def effectiveCachedPrice_def)

lemma CalculateCost_error:
  assumes "pm model = Some price" "0 \<le> sint i" "0 \<le> sint out" "0 \<le> sint c"
    and "ordinaryPrice price"
  shows "\<bar>CalculateCost pm model i out c - costFormula price (sint i) (sint out) (sint c)\<bar>
    \<le> costFormula price (sint i) (sint out) (sint c) / 2 ^ 50 + 17 * minPositive64"
proof -
  let ?x1 = "of_int (sint i) * InputPricePerMillion price / 1000000"
  let ?x2 = "of_int (sint c) * effectiveCachedPrice price / 1000000"
  let ?x3 = "of_int (sint out) * OutputPricePerMillion price / 1000000"
  let ?y1 = "costTerm i (InputPricePerMillion price)"
  let ?y2 = "costTerm c (effectiveCachedPrice price)"
  let ?y3 = "costTerm out (OutputPricePerMillion price)"
  from assms(5) have p: "0 \<le> InputPricePerMillion price" "0 \<le> OutputPricePerMillion price"
    "0 \<le> effectiveCachedPrice price"
    by (simp_all add: ordinaryPrice_def effectiveCachedPrice_def)
  have a1: "approx 3 (3 / 2 * minPositive64) ?y1 ?x1"
    and a2: "approx 3 (3 / 2 * minPositive64) ?y2 ?x2"
    and a3: "approx 3 (3 / 2 * minPositive64) ?y3 ?x3"
    by (rule costTerm_approx [OF assms(2) p(1)], rule costTerm_approx [OF assms(4) p(3)],
        rule costTerm_approx [OF assms(3) p(2)])
  have "approx 3 (3 / 2 * minPositive64 + 3 / 2 * minPositive64) (?y1 + ?y2) (?x1 + ?x2)"
    by (rule approx_add [OF a1 a2])
  then have "approx 4 (2 * (3 / 2 * minPositive64 + 3 / 2 * minPositive64) + minPositive64 / 2)
      (fadd ?y1 ?y2) (?x1 + ?x2)"
    unfolding fadd_def by (rule approx_round_to) simp
  then have s1: "approx 4 (13 / 2 * minPositive64) (fadd ?y1 ?y2) (?x1 + ?x2)"
    by (elim approx_mono) simp_all
  have "approx 4 (3 / 2 * minPositive64) ?y3 ?x3"
    using a3 by (elim approx_mono) simp_all
  with s1 have "approx 4 (13 / 2 * minPositive64 + 3 / 2 * minPositive64)
      (fadd ?y1 ?y2 + ?y3) (?x1 + ?x2 + ?x3)"
    by (rule approx_add)
  then have "approx 5 (2 * (13 / 2 * minPositive64 + 3 / 2 * minPositive64) + minPositive64 / 2)
      (fadd (fadd ?y1 ?y2) ?y3) (?x1 + ?x2 + ?x3)"
    unfolding fadd_def by (rule approx_round_to) simp
  then have "approx 5 (17 * minPositive64) (fadd (fadd ?y1 ?y2) ?y3) (?x1 + ?x2 + ?x3)"
    using minPositive64_pos by (elim approx_mono) simp_all
  moreover have "?x1 + ?x2 + ?x3 = costFormula price (sint i) (sint out) (sint c)"
    by (simp add: costFormula_def add_divide_distrib)
  ultimately have ap: "approx 5 (17 * minPositive64) (CalculateCost pm model i out c)
      (costFormula price (sint i) (sint out) (sint c))"
    using CalculateCost_costTerm [where pm = pm and model = model and price = price
        and i = i and out = out and c = c] assms(1)
    by simp
  define x where "x = costFormula price (sint i) (sint out) (sint c)"
  from ap have x: "0 \<le> x"
    and e: "\<bar>CalculateCost pm model i out c - x\<bar> \<le> ((1 + 1 / 2 ^ 53) ^ 5 - 1) * x + 17 * minPositive64"
    by (simp_all add: approx_def x_def)
  have "((1 + 1 / 2 ^ 53) ^ 5 - 1) * x \<le> (1 / 2 ^ 50) * x"
    using growth5 x by (rule mult_right_mono)
  with e show ?thesis
    by (simp add: x_def)
qed

lemma gpt_cost:
  "CalculateCost examplePricing ''gpt-4o'' 1000 500 0
     = 1080863910568919 / 144115188075855872"
proof -
  have p: "examplePricing ''gpt-4o'' =
      Some \<lparr>InputPricePerMillion = 5 / 2, OutputPricePerMillion = 10,
            CachedInputPricePerMillion = 0\<rparr>"
    by (simp add: examplePricing_def)
  have m: "fmul 1000 (5 / 2) = 2500" "fmul 500 10 = 5000" "fmul 0 (5 / 2) = 0"
    using round64_eval [of 11 2500] round64_eval [of 12 5000]
    by (simp_all add: fmul_def power_int_minus rne_def Let_def round64_def)
  have d: "fdiv 2500 1000000 = 5764607523034235 / 2305843009213693952"
    "fdiv 5000 1000000 = 5764607523034235 / 1152921504606846976"
    "fdiv 0 1000000 = 0"
    using round64_eval [of "- 9" "1 / 400"] round64_eval [of "- 8" "1 / 200"]
    by (simp_all add: fdiv_def power_int_minus rne_def Let_def round64_def)
  have a: "fadd (5764607523034235 / 2305843009213693952) 0
      = 5764607523034235 / 2305843009213693952"
    "fadd (5764607523034235 / 2305843009213693952) (5764607523034235 / 1152921504606846976)
      = 1080863910568919 / 144115188075855872"
    using round64_eval [of "- 9" "5764607523034235 / 2305843009213693952"]
      round64_eval [of "- 8" "17293822569102705 / 2305843009213693952"]
    by (simp_all add: fadd_def power_int_minus rne_def Let_def)
  show ?thesis
    by (simp add: CalculateCost_def GetPricing_def p Let_def float64_of_small m d a)
qed

text \<open>
  C5, amended. For a model with a catalog entry CalculateCost is the float64 sum
  (input cost + cached cost) + output cost, where each cost is the float64 product of
  the token count and its price per million, divided in float64 by 1,000,000, and the
  price of the cached tokens is the cached price unless that is zero, and the input
  price then. When the three token counts are not negative and the prices are
  ordinary (not negative, at most 2^900, so that nothing overflows) the result differs
  from input * inputPrice + cached * effectiveCachedPrice + output * outputPrice, all
  divided by 1,000,000, by at most that number divided by 2^50, plus 17 times the
  least positive float64. For a model without an entry the result is exactly 0.
\<close>

theorem CalculateCost_rounded:
  "(\<forall>price. pm model = Some price \<longrightarrow>
      CalculateCost pm model i out c =
        fadd (fadd (costTerm i (InputPricePerMillion price))
                   (costTerm c (effectiveCachedPrice price)))
             (costTerm out (OutputPricePerMillion price)) \<and>
      (0 \<le> sint i \<and> 0 \<le> sint out \<and> 0 \<le> sint c \<and> ordinaryPrice price \<longrightarrow>
         \<bar>CalculateCost pm model i out c - costFormula price (sint i) (sint out) (sint c)\<bar>
           \<le> costFormula price (sint i) (sint out) (sint c) / 2 ^ 50 + 17 * minPositive64)) \<and>
   (pm model = None \<longrightarrow> CalculateCost pm model i out c = 0)"
proof (intro conjI allI impI)
  fix price
  assume "pm model = Some price"
  then show "CalculateCost pm model i out c =
        fadd (fadd (costTerm i (InputPricePerMillion price))
                   (costTerm c (effectiveCachedPrice price)))
             (costTerm out (OutputPricePerMillion price))"
    by (simp add: CalculateCost_def GetPricing_def Let_def costTerm_def
        effectiveCachedPrice_def)
next
  fix price
  assume a: "pm model = Some price"
    and b: "0 \<le> sint i \<and> 0 \<le> sint out \<and> 0 \<le> sint c \<and> ordinaryPrice price"
  from b have "0 \<le> sint i" "0 \<le> sint out" "0 \<le> sint c" "ordinaryPrice price"
    by simp_all
  with a show "\<bar>CalculateCost pm model i out c - costFormula price (sint i) (sint out) (sint c)\<bar>
           \<le> costFormula price (sint i) (sint out) (sint c) / 2 ^ 50 + 17 * minPositive64"
    by (rule CalculateCost_error)
next
  assume "pm model = None"
  then show "CalculateCost pm model i out c = 0"
    by (simp add: CalculateCost_def GetPricing_def)
qed

theorem CalculateCost_rounded_witness:
  "examplePricing ''gpt-4o'' = Some gptPrice \<and> ordinaryPrice gptPrice \<and>
   CalculateCost examplePricing ''gpt-4o'' 1000 500 0
     = 1080863910568919 / 144115188075855872 \<and>
   costFormula gptPrice 1000 500 0 = 3 / 400 \<and>
   \<bar>CalculateCost examplePricing ''gpt-4o'' 1000 500 0 - costFormula gptPrice 1000 500 0\<bar>
     \<le> costFormula gptPrice 1000 500 0 / 2 ^ 50 + 17 * minPositive64 \<and>
   examplePricing ''unknown-model'' = None \<and>
   CalculateCost examplePricing ''unknown-model'' 1000 500 0 = 0"
proof -
  have p: "examplePricing ''gpt-4o'' = Some gptPrice"
    and n: "examplePricing ''unknown-model'' = None"
    by (simp_all add: examplePricing_def gptPrice_def)
  have o: "ordinaryPrice gptPrice"
    by (simp add: ordinaryPrice_def gptPrice_def)
  have f: "costFormula gptPrice 1000 500 0 = 3 / 400"
    by (simp add: costFormula_def effectiveCachedPrice_def gptPrice_def)
  have s: "sint (1000 :: int64) = 1000" "sint (500 :: int64) = 500" "sint (0 :: int64) = 0"
    by simp_all
  have "\<bar>CalculateCost examplePricing ''gpt-4o'' 1000 500 0
        - costFormula gptPrice 1000 500 0\<bar>
     \<le> costFormula gptPrice 1000 500 0 / 2 ^ 50 + 17 * minPositive64"
    using CalculateCost_rounded [of examplePricing "''gpt-4o''" 1000 500 0,
        THEN conjunct1, rule_format, OF p, THEN conjunct2] o
    by (simp only: s) simp
  moreover have "CalculateCost examplePricing ''unknown-model'' 1000 500 0 = 0"
    using CalculateCost_rounded [of examplePricing "''unknown-model''" 1000 500 0] n
    by simp
  ultimately show ?thesis
    using p n o f gpt_cost by simp
qed

subsection \<open>Usage updates\<close>

text \<open>
  C6. UpdateUsage adds inputTokens + outputTokens to the totalTokens of the key and
  one to its totalRequests, a key without a row starting from zero; the cached
  tokens do not enter the token total. The call returns for every key whose entry
  is not the nil pointer. Two calls in sequence with 1000 + 500 and then 2000 + 1000
  tokens, for a key that had no row, leave totalTokens = 4500 and totalRequests = 2.
  The additions are Go's int64 additions; they are the additions of the numbers
  when the token counts are not negative and the sums stay within the int64 range.
\<close>

theorem UpdateUsage_adds:
  "(usage m k \<noteq> Some None \<longrightarrow>
      (\<exists>m' u'. UpdateUsage now m k model i out c = Inr m' \<and> rowOf m' k = Some u' \<and>
         TotalTokens u' = tokensOf (rowOf m k) + (i + out) \<and>
         TotalRequests u' = requestsOf (rowOf m k) + 1 \<and>
         (0 \<le> sint i \<and> 0 \<le> sint out \<and> addsWithinRange m k i out \<longrightarrow>
            sint (TotalTokens u') = usedTokens (rowOf m k) + (sint i + sint out) \<and>
            sint (TotalRequests u') = usedRequests (rowOf m k) + 1))) \<and>
   (usage m k = None \<longrightarrow>
      (\<exists>m' u'. thenCall (UpdateUsage t1 m k model 1000 500 c1)
                  (\<lambda>m1. UpdateUsage t2 m1 k model' 2000 1000 c2) = Inr m' \<and>
         rowOf m' k = Some u' \<and> TotalTokens u' = 4500 \<and> TotalRequests u' = 2))"
proof (intro conjI impI)
  assume "usage m k \<noteq> Some None"
  then consider "usage m k = None" | u where "usage m k = Some (Some u)"
    by (cases "usage m k") auto
  then show "\<exists>m' u'. UpdateUsage now m k model i out c = Inr m' \<and> rowOf m' k = Some u' \<and>
         TotalTokens u' = tokensOf (rowOf m k) + (i + out) \<and>
         TotalRequests u' = requestsOf (rowOf m k) + 1 \<and>
         (0 \<le> sint i \<and> 0 \<le> sint out \<and> addsWithinRange m k i out \<longrightarrow>
            sint (TotalTokens u') = usedTokens (rowOf m k) + (sint i + sint out) \<and>
            sint (TotalRequests u') = usedRequests (rowOf m k) + 1)"
  proof cases
    case 1
    let ?u = "newUsage k now"
    have row: "rowOf m k = None"
      using 1 by (simp add: rowOf_cases)
    have z: "sint (TotalTokens ?u) = 0" "sint (TotalRequests ?u) = 0"
      by (simp_all add: newUsage_def)
    have "0 \<le> sint i \<and> 0 \<le> sint out \<and> addsWithinRange m k i out \<longrightarrow>
        sint (TotalTokens (added m now model i out c ?u)) = sint i + sint out \<and>
        sint (TotalRequests (added m now model i out c ?u)) = 1"
      using added_exact [of i out ?u m now model c]
      by (simp add: addsWithinRange_def row z usedTokens_def usedRequests_def)
    moreover have "TotalTokens (added m now model i out c ?u) = i + out"
      and "TotalRequests (added m now model i out c ?u) = 1"
      by (simp_all add: added_def newUsage_def)
    ultimately show ?thesis
      using 1 row
      by (simp add: UpdateUsage_new tokensOf_def requestsOf_def usedTokens_def usedRequests_def)
  next
    case 2
    have row: "rowOf m k = Some u"
      using 2 by (simp add: rowOf_cases)
    have "0 \<le> sint i \<and> 0 \<le> sint out \<and> addsWithinRange m k i out \<longrightarrow>
        sint (TotalTokens (added m now model i out c u)) = sint (TotalTokens u) + (sint i + sint out) \<and>
        sint (TotalRequests (added m now model i out c u)) = sint (TotalRequests u) + 1"
      using added_exact [of i out u m now model c]
      by (simp add: addsWithinRange_def row usedTokens_def usedRequests_def)
    moreover have "TotalTokens (added m now model i out c u) = TotalTokens u + (i + out)"
      and "TotalRequests (added m now model i out c u) = TotalRequests u + 1"
      by (simp_all add: added_def)
    ultimately show ?thesis
      using 2 row
      by (simp add: UpdateUsage_row tokensOf_def requestsOf_def usedTokens_def usedRequests_def)
  qed
next
  assume none: "usage m k = None"
  let ?m1 = "m\<lparr>usage := (usage m)(k \<mapsto> Some (added m t1 model 1000 500 c1 (newUsage k t1)))\<rparr>"
  have "usage ?m1 k = Some (Some (added m t1 model 1000 500 c1 (newUsage k t1)))"
    by simp
  then show "\<exists>m' u'. thenCall (UpdateUsage t1 m k model 1000 500 c1)
                  (\<lambda>m1. UpdateUsage t2 m1 k model' 2000 1000 c2) = Inr m' \<and>
         rowOf m' k = Some u' \<and> TotalTokens u' = 4500 \<and> TotalRequests u' = 2"
    by (simp add: thenCall_def UpdateUsage_new [OF none] UpdateUsage_row added_def newUsage_def)
qed

theorem UpdateUsage_adds_witness:
  "usage emptyManager ''test-key'' = None \<and>
   sint (tokensOf (rowAfter (UpdateUsage 10 emptyManager ''test-key'' ''gpt-4o'' 1000 500 0) ''test-key''))
     = 1500 \<and>
   sint (tokensOf (rowAfter
      (thenCall (UpdateUsage 10 emptyManager ''test-key'' ''gpt-4o'' 1000 500 0)
         (\<lambda>m1. UpdateUsage 20 m1 ''test-key'' ''gpt-4o'' 2000 1000 0)) ''test-key'')) = 4500 \<and>
   sint (requestsOf (rowAfter
      (thenCall (UpdateUsage 10 emptyManager ''test-key'' ''gpt-4o'' 1000 500 0)
         (\<lambda>m1. UpdateUsage 20 m1 ''test-key'' ''gpt-4o'' 2000 1000 0)) ''test-key'')) = 2"
proof -
  have none: "usage emptyManager ''test-key'' = None"
    by (simp add: emptyManager_def)
  have row0: "rowOf emptyManager ''test-key'' = None"
    by (simp add: rowOf_cases none)
  show ?thesis
    using UpdateUsage_adds [of emptyManager "''test-key''" 10 "''gpt-4o''" 1000 500 0
        10 0 20 "''gpt-4o''" 0]
    by (auto simp: none row0 rowAfter_def tokensOf_def requestsOf_def)
qed

subsection \<open>Counters under traffic\<close>


lemma CalculateCost_nonneg:
  assumes "0 \<le> sint i" "0 \<le> sint out" "0 \<le> sint c" "pricesNonNegative pm model"
  shows "0 \<le> CalculateCost pm model i out c"
proof (cases "pm model")
  case None
  then show ?thesis by (simp add: CalculateCost_def GetPricing_def)
next
  case (Some price)
  have tokens: "0 \<le> float64_of i" "0 \<le> float64_of out" "0 \<le> float64_of c"
    using assms(1-3) by (simp_all only: float64_of_def round64_nonneg of_int_0_le_iff)
  from Some assms(4) have prices: "0 \<le> InputPricePerMillion price"
    "0 \<le> OutputPricePerMillion price" "0 \<le> CachedInputPricePerMillion price"
    by (simp_all add: pricesNonNegative_def)
  have "0 \<le> fdiv (fmul (float64_of i) (InputPricePerMillion price)) 1000000"
    and "0 \<le> fdiv (fmul (float64_of c) (InputPricePerMillion price)) 1000000"
    and "0 \<le> fdiv (fmul (float64_of c) (CachedInputPricePerMillion price)) 1000000"
    and "0 \<le> fdiv (fmul (float64_of out) (OutputPricePerMillion price)) 1000000"
    using tokens prices by (simp_all add: fdiv_nonneg fmul_nonneg)
  with Some show ?thesis
    by (simp add: CalculateCost_def GetPricing_def Let_def fadd_nonneg)
qed










text \<open>
  X8. The total cost as Go stores it, the float64 sum of the total so far and the
  cost of the request, is a float64 again, is not lower than the total so far when
  the token counts and the prices of the model are not negative, and is within half
  a unit in the last place of the exact sum that UpdateUsage keeps here.
\<close>

theorem rounded_total_not_lower:
  assumes "isFloat64 t"
    and "0 \<le> sint i" "0 \<le> sint out" "0 \<le> sint c" "pricesNonNegative pm model"
  shows "t \<le> fadd t (CalculateCost pm model i out c) \<and>
         isFloat64 (fadd t (CalculateCost pm model i out c)) \<and>
         \<bar>fadd t (CalculateCost pm model i out c) - (t + CalculateCost pm model i out c)\<bar>
           \<le> ulp64 (t + CalculateCost pm model i out c) / 2"
proof (intro conjI)
  have "0 \<le> CalculateCost pm model i out c"
    using assms(2-5) by (rule CalculateCost_nonneg)
  with assms(1) show "t \<le> fadd t (CalculateCost pm model i out c)"
    by (rule fadd_not_lower)
  show "isFloat64 (fadd t (CalculateCost pm model i out c))"
    by (simp add: isFloat64_def fadd_def round64_idem)
  show "\<bar>fadd t (CalculateCost pm model i out c) - (t + CalculateCost pm model i out c)\<bar>
           \<le> ulp64 (t + CalculateCost pm model i out c) / 2"
    unfolding fadd_def by (rule round64_half_ulp)
qed

theorem rounded_total_not_lower_witness:
  "isFloat64 6 \<and> pricesNonNegative examplePricing ''gpt-4o'' \<and>
   fadd 6 (CalculateCost examplePricing ''gpt-4o'' 1000 500 0)
     = 845480461294633 / 140737488355328 \<and>
   6 \<le> fadd 6 (CalculateCost examplePricing ''gpt-4o'' 1000 500 0) \<and>
   isFloat64 (fadd 6 (CalculateCost examplePricing ''gpt-4o'' 1000 500 0))"
proof -
  have f: "isFloat64 6"
    using round64_eval [of 2 6] by (simp add: isFloat64_def power_int_minus rne_def Let_def)
  have p: "pricesNonNegative examplePricing ''gpt-4o''"
    by (simp add: pricesNonNegative_def examplePricing_def)
  have s: "sint (1000 :: int64) = 1000" "sint (500 :: int64) = 500" "sint (0 :: int64) = 0"
    by simp_all
  have v: "fadd 6 (CalculateCost examplePricing ''gpt-4o'' 1000 500 0)
      = 845480461294633 / 140737488355328"
    using round64_eval [of 2 "865771992365704151 / 144115188075855872"]
    by (simp add: fadd_def gpt_cost power_int_minus rne_def Let_def)
  have "6 \<le> fadd 6 (CalculateCost examplePricing ''gpt-4o'' 1000 500 0) \<and>
      isFloat64 (fadd 6 (CalculateCost examplePricing ''gpt-4o'' 1000 500 0))"
    using rounded_total_not_lower [OF f _ _ _ p, of 1000 500 0] by (simp only: s)
  with f p v show ?thesis by simp
qed

subsection \<open>The life of a ledger row\<close>

text \<open>
  C8, as stated: no call but UpdateUsage and SetUsage gives a key a row, and no call
  but ResetUsage and ResetAllUsage takes one away. Neither holds. GetUsage, for a key
  without a row, makes one and stores it; and SetUsage with the nil pointer leaves
  the key with an entry that holds no row, so that the row it had is gone.
\<close>

theorem GetUsage_creates_row_counterexample:
  "rowOf emptyManager ''key-1'' = None \<and>
   run_call ParseDateValue 10 emptyManager (CallGetUsage ''key-1'') =
     Inr (emptyManager\<lparr>usage := [''key-1'' \<mapsto> Some (newUsage ''key-1'' 10)]\<rparr>) \<and>
   rowOf (emptyManager\<lparr>usage := [''key-1'' \<mapsto> Some (newUsage ''key-1'' 10)]\<rparr>) ''key-1''
     = Some (newUsage ''key-1'' 10) \<and>
   rowOf exampleManager ''key-1'' = Some exampleRow \<and>
   run_call ParseDateValue 10 exampleManager (CallSetUsage ''key-1'' None) =
     Inr (SetUsage exampleManager ''key-1'' None) \<and>
   rowOf (SetUsage exampleManager ''key-1'' None) ''key-1'' = None"
  by (simp add: GetUsage_def emptyManager_def rowOf_def GetUsageReadOnly_def
      exampleManager_def SetUsage_def)

lemma rowOf_usage:
  "rowOf m k = (case usage m k of None \<Rightarrow> None | Some row \<Rightarrow> row)"
  by (simp add: rowOf_def GetUsageReadOnly_def)

text \<open>
  C8, amended. A call that returns gives a key a row only if it is UpdateUsage,
  SetUsage or GetUsage for that key, and takes the row of a key away only if it is
  ResetUsage for that key, ResetAllUsage, or SetUsage for that key with the nil
  pointer. The same holds of the entries of the ledger, a nil entry counted as one,
  except that SetUsage never takes an entry away.
\<close>

theorem ledger_row_lifecycle:
  assumes "run_call parse now m cl = Inr m'"
  shows "(rowOf m k = None \<and> rowOf m' k \<noteq> None \<longrightarrow> createsRow k cl) \<and>
         (rowOf m k \<noteq> None \<and> rowOf m' k = None \<longrightarrow> removesRow k cl) \<and>
         (usage m k = None \<and> usage m' k \<noteq> None \<longrightarrow> createsRow k cl) \<and>
         (usage m k \<noteq> None \<and> usage m' k = None \<longrightarrow> removesEntry k cl)"
proof (cases cl)
  case (CallUpdateUsage k' model i out c)
  with assms have run: "UpdateUsage now m k' model i out c = Inr m'"
    by simp
  then have "usage m k' \<noteq> Some None"
    by (auto simp: UpdateUsage_nil)
  then consider "usage m k' = None" | u where "usage m k' = Some (Some u)"
    by (cases "usage m k'") auto
  then show ?thesis
  proof cases
    case 1
    with run CallUpdateUsage show ?thesis
      by (auto simp: UpdateUsage_new rowOf_usage split: if_splits)
  next
    case 2
    with run CallUpdateUsage show ?thesis
      by (auto simp: UpdateUsage_row rowOf_usage split: if_splits)
  qed
next
  case (CallGetUsage k')
  with assms show ?thesis
    by (cases "usage m k'") (auto simp: GetUsage_def rowOf_usage split: if_splits)
next
  case CallAllUsage
  with assms show ?thesis
    by (cases "AllUsage m") (auto dest: AllUsage_Inr)
next
  case (CallLoadPolicies cfg)
  with assms show ?thesis
    by (auto simp: usage_LoadPolicies rowOf_usage)
next
  case (CallSetUsage k' row)
  with assms show ?thesis
    by (auto simp: SetUsage_def rowOf_usage split: if_splits)
qed (use assms in \<open>auto simp: GetPolicy_def GetUsageReadOnly_def AllPolicies_def
      CheckQuota_snd GetQuotaStatus_reads_only ResetUsage_def ResetAllUsage_def
      rowOf_usage split: if_splits\<close>)

lemma example_reset:
  "run_call ParseDateValue 10 exampleManager (CallResetUsage ''key-1'') =
     Inr (ResetUsage exampleManager ''key-1'')"
  by simp

lemma empty_update:
  "run_call ParseDateValue 10 emptyManager (CallUpdateUsage ''key-1'' ''gpt-4o'' 1000 500 0) =
     Inr (emptyManager\<lparr>usage := [''key-1'' \<mapsto>
        Some (added emptyManager 10 ''gpt-4o'' 1000 500 0 (newUsage ''key-1'' 10))]\<rparr>)"
proof -
  have u: "usage emptyManager ''key-1'' = None"
    by (simp add: emptyManager_def)
  show ?thesis
    by (simp add: UpdateUsage_new [OF u]) (simp add: emptyManager_def)
qed

lemma example_unset:
  "run_call ParseDateValue 10 exampleManager (CallSetUsage ''key-1'' None) =
     Inr (SetUsage exampleManager ''key-1'' None)"
  by simp

theorem ledger_row_lifecycle_witness:
  "rowOf exampleManager ''key-1'' \<noteq> None \<and>
   rowOf (ResetUsage exampleManager ''key-1'') ''key-1'' = None \<and>
   usage (ResetUsage exampleManager ''key-1'') ''key-1'' = None \<and>
   removesRow ''key-1'' (CallResetUsage ''key-1'') \<and>
   removesEntry ''key-1'' (CallResetUsage ''key-1'') \<and>
   rowOf (SetUsage exampleManager ''key-1'' None) ''key-1'' = None \<and>
   usage (SetUsage exampleManager ''key-1'' None) ''key-1'' \<noteq> None \<and>
   removesRow ''key-1'' (CallSetUsage ''key-1'' None) \<and>
   rowOf emptyManager ''key-1'' = None \<and>
   rowOf (emptyManager\<lparr>usage := [''key-1'' \<mapsto>
        Some (added emptyManager 10 ''gpt-4o'' 1000 500 0 (newUsage ''key-1'' 10))]\<rparr>) ''key-1''
     \<noteq> None \<and>
   createsRow ''key-1'' (CallUpdateUsage ''key-1'' ''gpt-4o'' 1000 500 0)"
  using ledger_row_lifecycle [OF example_reset, of "''key-1''"]
    ledger_row_lifecycle [OF example_unset, of "''key-1''"]
    ledger_row_lifecycle [OF empty_update, of "''key-1''"]
  by (simp add: exampleManager_def emptyManager_def ResetUsage_def SetUsage_def rowOf_usage)

subsection \<open>Autosave controls\<close>

text \<open>
  C9. StartAutoSave twice in a row leaves the autosave state exactly as StartAutoSave
  once does, with autosave running; StopAutoSave while autosave is not running, and
  so when it was never started, returns without a panic and changes nothing.
\<close>

theorem autosave_controls_idempotent:
  "StartAutoSave (StartAutoSave s) = StartAutoSave s \<and>
   autoSaveRunning (StartAutoSave s) \<and>
   (\<not> autoSaveRunning s \<longrightarrow> StopAutoSave saveErr s = Inr s) \<and>
   StopAutoSave saveErr initialPersistence = Inr initialPersistence"
  by (simp add: StartAutoSave_def StopAutoSave_def initialPersistence_def)

theorem autosave_controls_idempotent_witness:
  "StartAutoSave (StartAutoSave initialPersistence) = StartAutoSave initialPersistence \<and>
   saversStarted (StartAutoSave (StartAutoSave initialPersistence)) = 1 \<and>
   \<not> autoSaveRunning initialPersistence \<and>
   StopAutoSave None initialPersistence = Inr initialPersistence"
  using autosave_controls_idempotent [of initialPersistence None]
  by (simp add: StartAutoSave_def initialPersistence_def)

subsection \<open>CheckQuota only reads\<close>

text \<open>
  C10. CheckQuota leaves the manager as it found it: the policy map, the ledger and
  the catalog after the call are those before the call. In particular a key without
  a row has none afterwards either.
\<close>

theorem CheckQuota_reads_only:
  "snd (CheckQuota parse now m k model) = m"
  by (simp add: CheckQuota_def GetPolicy_def GetUsageReadOnly_def)

theorem CheckQuota_reads_only_witness:
  "usage emptyManager ''key-1'' = None \<and>
   usage (snd (CheckQuota ParseDateValue (noon 2025 6 15) emptyManager ''key-1'' ''gpt-4o'')) ''key-1'' = None \<and>
   snd (CheckQuota ParseDateValue (noon 2025 6 15) exampleManager ''key-1'' ''gpt-4o'') = exampleManager"
  using CheckQuota_reads_only [of ParseDateValue "noon 2025 6 15" emptyManager "''key-1''" "''gpt-4o''"]
    CheckQuota_reads_only [of ParseDateValue "noon 2025 6 15" exampleManager "''key-1''" "''gpt-4o''"]
  by (simp add: emptyManager_def)

subsection \<open>Further properties of the decision engine\<close>

text \<open>
  X3. The allow-list: a policy without allowed models allows every model; a policy
  with allowed models allows exactly the models of the list, compared as strings
  (so a different spelling of case is a different model).
\<close>

theorem allow_list_exact_match:
  "IsModelAllowed None model \<and>
   IsModelAllowed (Some p) model = (AllowedModels p = [] \<or> model \<in> set (AllowedModels p))"
  by (simp add: IsModelAllowed_Some) (simp add: IsModelAllowed_def HasModelRestriction_def)

theorem allow_list_exact_match_witness:
  "IsModelAllowed (Some examplePolicy) ''gpt-4o'' \<and>
   \<not> IsModelAllowed (Some examplePolicy) ''GPT-4o'' \<and>
   \<not> IsModelAllowed (Some examplePolicy) ''gemini-2.0-flash'' \<and>
   IsModelAllowed (Some tokenCapPolicy) ''gemini-2.0-flash''"
  using allow_list_exact_match [of "''gpt-4o''" examplePolicy]
    allow_list_exact_match [of "''GPT-4o''" examplePolicy]
    allow_list_exact_match [of "''gemini-2.0-flash''" examplePolicy]
    allow_list_exact_match [of "''gemini-2.0-flash''" tokenCapPolicy]
  by (simp add: examplePolicy_def tokenCapPolicy_def)

text \<open>
  X4. For a key without a policy CheckQuota returns the allowed result with no
  error, no policy and no margin; the row of the key, if it has one, is reported.
\<close>

theorem no_policy_allowed_without_margins:
  "policies m k = None \<longrightarrow>
   fst (CheckQuota parse now m k model) =
     \<lparr>Allowed = True, Error = None, Usage = rowOf m k, Policy = None,
      RemainingTokens = None, RemainingCostUSD = None\<rparr>"
  by (simp add: fst_CheckQuota_no_policy NewAllowedResult_def)

theorem no_policy_allowed_without_margins_witness:
  "policies emptyManager ''key-no-policy'' = None \<and>
   fst (CheckQuota ParseDateValue (noon 2025 6 15) emptyManager ''key-no-policy'' ''any-model'') =
     \<lparr>Allowed = True, Error = None, Usage = None, Policy = None,
      RemainingTokens = None, RemainingCostUSD = None\<rparr>"
proof -
  have "policies emptyManager ''key-no-policy'' = None"
    and "rowOf emptyManager ''key-no-policy'' = None"
    by (simp_all add: emptyManager_def rowOf_cases)
  then show ?thesis
    using no_policy_allowed_without_margins
      [of emptyManager "''key-no-policy''" ParseDateValue "noon 2025 6 15" "''any-model''"]
    by simp
qed

text \<open>
  X5. A key whose ledger entry holds the nil pointer (SetUsage with a nil row) makes
  UpdateUsage for that key panic, and makes AllUsage panic; CheckQuota treats such a
  key as a key without a row.
\<close>

theorem nil_entry_panics:
  "usage m k = Some None \<longrightarrow>
   UpdateUsage now m k model i out c = Inl NilPointerDereference \<and>
   AllUsage m = Inl NilPointerDereference \<and>
   rowOf m k = None"
  by (auto simp: UpdateUsage_nil AllUsage_def rowOf_cases)

theorem nil_entry_panics_witness:
  "usage (SetUsage emptyManager ''key-1'' None) ''key-1'' = Some None \<and>
   UpdateUsage 10 (SetUsage emptyManager ''key-1'' None) ''key-1'' ''gpt-4o'' 1000 500 0
     = Inl NilPointerDereference \<and>
   AllUsage (SetUsage emptyManager ''key-1'' None) = Inl NilPointerDereference"
proof -
  have "usage (SetUsage emptyManager ''key-1'' None) ''key-1'' = Some None"
    by (simp add: SetUsage_def)
  then show ?thesis
    using nil_entry_panics [of "SetUsage emptyManager ''key-1'' None" "''key-1''" 10 "''gpt-4o''"
        1000 500 0]
    by simp
qed

subsection \<open>The built-in prices\<close>

lemma lit_exact: "lit (5 / 4) = 5 / 4" "lit (1 / 8) = 1 / 8"
  using round64_eval [of 0 "5 / 4"] round64_eval [of "- 3" "1 / 8"]
  by (simp_all add: lit_def power_int_minus rne_def Let_def)

lemma map_of_pricesNonNegative:
  "list_all (\<lambda>(model, price). priceNonNegative price) table \<Longrightarrow>
   pricesNonNegative (map_of table) model"
  by (induction table) (auto simp: pricesNonNegative_def priceNonNegative_def)

lemma DefaultModelPricing_nonneg:
  "list_all (\<lambda>(model, price). priceNonNegative price) DefaultModelPricing"
  by (simp add: DefaultModelPricing_def priceNonNegative_def lit_nonneg)

text \<open>
  X6. The built-in catalog has no negative price: after InitDefaultPricing on an
  empty catalog every model has prices that are not negative (or none), which is
  what the counters need for never going down.
\<close>

theorem default_prices_not_negative:
  "pricesNonNegative (InitDefaultPricing Map.empty) model"
proof -
  have "InitDefaultPricing Map.empty = map_of DefaultModelPricing"
    by (simp add: InitDefaultPricing_def SetDefaultPricing_def)
  then show ?thesis
    by (simp add: map_of_pricesNonNegative DefaultModelPricing_nonneg)
qed

theorem default_prices_not_negative_witness:
  "pricesNonNegative (InitDefaultPricing Map.empty) ''gpt-5'' \<and>
   InitDefaultPricing Map.empty ''gpt-5'' =
     Some \<lparr>InputPricePerMillion = 5 / 4, OutputPricePerMillion = 10,
           CachedInputPricePerMillion = 1 / 8\<rparr> \<and>
   InitDefaultPricing Map.empty ''gpt-4o'' = None"
  using default_prices_not_negative [of "''gpt-5''"]
  by (simp add: InitDefaultPricing_def SetDefaultPricing_def DefaultModelPricing_def lit_exact)

text \<open>
  X7. A price that was set for a model wins over the default for that model,
  whichever of the two comes first; a model without a price gets the default.
\<close>

theorem explicit_price_wins:
  "SetDefaultPricing (SetPricing pm model price) defaults model = Some price \<and>
   SetPricing (SetDefaultPricing pm defaults) model price model = Some price \<and>
   (pm model' = None \<longrightarrow> SetDefaultPricing pm defaults model' = defaults model')"
  by (simp add: SetDefaultPricing_def SetPricing_def)

theorem explicit_price_wins_witness:
  "SetDefaultPricing
     (SetPricing Map.empty ''gpt-5''
        \<lparr>InputPricePerMillion = 1, OutputPricePerMillion = 8, CachedInputPricePerMillion = 0\<rparr>)
     (map_of DefaultModelPricing) ''gpt-5''
     = Some \<lparr>InputPricePerMillion = 1, OutputPricePerMillion = 8,
             CachedInputPricePerMillion = 0\<rparr> \<and>
   SetDefaultPricing Map.empty (map_of DefaultModelPricing) ''gpt-5.1''
     = map_of DefaultModelPricing ''gpt-5.1''"
  using explicit_price_wins [of Map.empty "''gpt-5''"
      "\<lparr>InputPricePerMillion = 1, OutputPricePerMillion = 8, CachedInputPricePerMillion = 0\<rparr>"
      "map_of DefaultModelPricing" "''gpt-5.1''"]
  by simp

end
